theory Spec2Isabelle
  imports Complex_Main
begin

section \<open>BAO filters of cosmoprimo (\<^verbatim>\<open>bao_filter.py\<close>)\<close>

text \<open>
  The development embeds the filter classes of \<^verbatim>\<open>src/cosmoprimo/bao_filter.py\<close>: the
  base protocol (\<^verbatim>\<open>__init__\<close>, \<^verbatim>\<open>set_k\<close>, \<^verbatim>\<open>set_pk\<close>, \<^verbatim>\<open>__call__\<close>,
  \<^verbatim>\<open>wiggles\<close>, \<^verbatim>\<open>rs_drag_ratio\<close>), every engine's \<^verbatim>\<open>_prepare\<close> and
  \<^verbatim>\<open>_compute\<close>, and the two factory functions.

  Conventions.
  \<^item> Floating-point numbers are real numbers. NaN and the infinities are not values of the
    model: where a statement depends on a division, its divisor is required to be non-zero.
  \<^item> A raised exception is the left injection of a sum type.
  \<^item> A numpy array of dimension 0, 1 or 2 is an \<open>ndarray\<close>; a 2-d array carries its
    number of columns, so that the shape \<open>(0, m)\<close> is a value.
  \<^item> Numerical routines that are not part of the sources (scipy, the least-squares solver
    of \<^verbatim>\<open>utils\<close>, the Eisenstein-Hu and Boltzmann engines) are fields of a record of
    functions, \<open>externals\<close>, that every operation takes as its first argument.
\<close>

subsection \<open>Errors\<close>

datatype error =
    ValueError string
  | IndexError
  | TypeError
  | AttributeError string
  | ZeroDivisionError
  | CosmologyError string
  | NonFinite

type_synonym 'a result = "error + 'a"

definition rbind :: "'a result \<Rightarrow> ('a \<Rightarrow> 'b result) \<Rightarrow> 'b result" where
  "rbind m f = (case m of Inl e \<Rightarrow> Inl e | Inr x \<Rightarrow> f x)"

subsection \<open>Arrays\<close>

datatype ndarray = A0 real | A1 "real list" | A2 nat "real list list"

fun shape :: "ndarray \<Rightarrow> nat list" where
  "shape (A0 x) = []"
| "shape (A1 xs) = [length xs]"
| "shape (A2 c rows) = [length rows, c]"

fun ndim :: "ndarray \<Rightarrow> nat" where
  "ndim (A0 x) = 0"
| "ndim (A1 xs) = 1"
| "ndim (A2 c rows) = 2"

text \<open>A 2-d array is well formed when each of its rows has the declared number of columns.\<close>

fun wf :: "ndarray \<Rightarrow> bool" where
  "wf (A2 c rows) = list_all (\<lambda>r. length r = c) rows"
| "wf a = True"

text \<open>
  Broadcasting works on the 2-d view of an array: a scalar is \<open>1 \<times> 1\<close>, a vector of
  length \<open>n\<close> is \<open>1 \<times> n\<close>.
\<close>

fun vrows :: "ndarray \<Rightarrow> real list list" where
  "vrows (A0 x) = [[x]]"
| "vrows (A1 xs) = [xs]"
| "vrows (A2 c rows) = rows"

fun vshape :: "ndarray \<Rightarrow> nat \<times> nat" where
  "vshape (A0 x) = (1, 1)"
| "vshape (A1 xs) = (1, length xs)"
| "vshape (A2 c rows) = (length rows, c)"

definition bdim :: "nat \<Rightarrow> nat \<Rightarrow> nat option" where
  "bdim a b = (if a = b then Some a else if a = 1 then Some b else if b = 1 then Some a else None)"

definition stretch :: "nat \<Rightarrow> 'a list \<Rightarrow> 'a list" where
  "stretch n xs = (if length xs = n then xs else replicate n (hd xs))"

definition bview :: "nat \<Rightarrow> nat \<Rightarrow> ndarray \<Rightarrow> real list list" where
  "bview r c a = stretch r (map (stretch c) (vrows a))"

definition unview :: "nat \<Rightarrow> nat \<Rightarrow> real list list \<Rightarrow> ndarray" where
  "unview d c rows = (if d = 0 then A0 (hd (hd rows)) else if d = 1 then A1 (hd rows) else A2 c rows)"

definition np_binop :: "(real \<Rightarrow> real \<Rightarrow> real) \<Rightarrow> ndarray \<Rightarrow> ndarray \<Rightarrow> ndarray result" where
  "np_binop f a b =
     (case (bdim (fst (vshape a)) (fst (vshape b)), bdim (snd (vshape a)) (snd (vshape b))) of
        (Some r, Some c) \<Rightarrow>
          Inr (unview (max (ndim a) (ndim b)) c (map2 (map2 f) (bview r c a) (bview r c b)))
      | _ \<Rightarrow> Inl (ValueError ''operands could not be broadcast together''))"

definition np_divide :: "ndarray \<Rightarrow> ndarray \<Rightarrow> ndarray result" where
  "np_divide = np_binop (\<lambda>x y. x / y)"

definition np_multiply :: "ndarray \<Rightarrow> ndarray \<Rightarrow> ndarray result" where
  "np_multiply = np_binop (\<lambda>x y. x * y)"

definition np_add :: "ndarray \<Rightarrow> ndarray \<Rightarrow> ndarray result" where
  "np_add = np_binop (\<lambda>x y. x + y)"

definition np_subtract :: "ndarray \<Rightarrow> ndarray \<Rightarrow> ndarray result" where
  "np_subtract = np_binop (\<lambda>x y. x - y)"

fun np_map :: "(real \<Rightarrow> real) \<Rightarrow> ndarray \<Rightarrow> ndarray" where
  "np_map f (A0 x) = A0 (f x)"
| "np_map f (A1 xs) = A1 (map f xs)"
| "np_map f (A2 c rows) = A2 c (map (map f) rows)"

text \<open>\<^verbatim>\<open>a.T\<close>. The rows of the transpose of an \<open>n \<times> c\<close> array are its \<open>c\<close> columns.\<close>

fun np_transpose :: "ndarray \<Rightarrow> ndarray" where
  "np_transpose (A2 c rows) = A2 (length rows) (map (\<lambda>j. map (\<lambda>r. r ! j) rows) [0..<c])"
| "np_transpose a = a"

text \<open>\<^verbatim>\<open>x[:, None]\<close> of a 1-d array.\<close>

definition column :: "real list \<Rightarrow> ndarray" where
  "column xs = A2 1 (map (\<lambda>x. [x]) xs)"

text \<open>\<^verbatim>\<open>a[..., 0]\<close>.\<close>

fun ellipsis0 :: "ndarray \<Rightarrow> ndarray result" where
  "ellipsis0 (A0 x) = Inl IndexError"
| "ellipsis0 (A1 xs) = (if xs = [] then Inl IndexError else Inr (A0 (hd xs)))"
| "ellipsis0 (A2 c rows) = (if c = 0 then Inl IndexError else Inr (A1 (map hd rows)))"

text \<open>Boolean masks: \<^verbatim>\<open>a[mask]\<close> and \<^verbatim>\<open>a[mask] = v\<close>, along the first axis.\<close>

definition select :: "bool list \<Rightarrow> 'a list \<Rightarrow> 'a list" where
  "select msk xs = map snd (filter fst (zip msk xs))"

fun scatter :: "bool list \<Rightarrow> 'a list \<Rightarrow> 'a list \<Rightarrow> 'a list" where
  "scatter (True # m) (x # xs) (v # vs) = v # scatter m xs vs"
| "scatter (False # m) (x # xs) vs = x # scatter m xs vs"
| "scatter m xs vs = xs"

definition count_true :: "bool list \<Rightarrow> nat" where
  "count_true msk = length (filter id msk)"

fun getitem_mask :: "bool list \<Rightarrow> ndarray \<Rightarrow> ndarray result" where
  "getitem_mask msk (A0 x) = Inl IndexError"
| "getitem_mask msk (A1 xs) =
     (if length msk = length xs then Inr (A1 (select msk xs)) else Inl IndexError)"
| "getitem_mask msk (A2 c rows) =
     (if length msk = length rows then Inr (A2 c (select msk rows)) else Inl IndexError)"

text \<open>
  The value of an assignment is broadcast into the selected part: each of its (viewed)
  dimensions is the target's or 1.
\<close>

definition fits :: "nat \<Rightarrow> nat \<Rightarrow> ndarray \<Rightarrow> bool" where
  "fits r c v = ((fst (vshape v) = r \<or> fst (vshape v) = 1) \<and> (snd (vshape v) = c \<or> snd (vshape v) = 1))"

fun setitem_mask :: "bool list \<Rightarrow> ndarray \<Rightarrow> ndarray \<Rightarrow> ndarray result" where
  "setitem_mask msk v (A0 x) = Inl IndexError"
| "setitem_mask msk v (A1 xs) =
     (if length msk \<noteq> length xs then Inl IndexError
      else if fits 1 (count_true msk) v
      then Inr (A1 (scatter msk xs (hd (bview 1 (count_true msk) v))))
      else Inl (ValueError ''could not broadcast input array''))"
| "setitem_mask msk v (A2 c rows) =
     (if length msk \<noteq> length rows then Inl IndexError
      else if fits (count_true msk) c v
      then Inr (A2 c (scatter msk rows (bview (count_true msk) c v)))
      else Inl (ValueError ''could not broadcast input array''))"

text \<open>
  Slices \<^verbatim>\<open>a[-h:]\<close> along the first axis, for a Python integer \<open>h\<close>: the start index is
  \<open>n - h\<close> clipped to \<open>0\<close> for \<open>h > 0\<close>, is \<open>0\<close> for \<open>h = 0\<close> (as \<open>-0 = 0\<close>), and is
  \<open>-h\<close> clipped to \<open>n\<close> for \<open>h < 0\<close>.
\<close>

definition tail_start :: "nat \<Rightarrow> int \<Rightarrow> nat" where
  "tail_start n h = (if h > 0 then n - nat h else min (nat (- h)) n)"

fun getitem_tail :: "int \<Rightarrow> ndarray \<Rightarrow> ndarray result" where
  "getitem_tail h (A0 x) = Inl IndexError"
| "getitem_tail h (A1 xs) = Inr (A1 (drop (tail_start (length xs) h) xs))"
| "getitem_tail h (A2 c rows) = Inr (A2 c (drop (tail_start (length rows) h) rows))"

fun setitem_tail :: "int \<Rightarrow> ndarray \<Rightarrow> ndarray \<Rightarrow> ndarray result" where
  "setitem_tail h v (A0 x) = Inl IndexError"
| "setitem_tail h v (A1 xs) =
     (let t = tail_start (length xs) h in
      if fits 1 (length xs - t) v
      then Inr (A1 (take t xs @ hd (bview 1 (length xs - t) v)))
      else Inl (ValueError ''could not broadcast input array''))"
| "setitem_tail h v (A2 c rows) =
     (let t = tail_start (length rows) h in
      if fits (length rows - t) c v
      then Inr (A2 c (take t rows @ bview (length rows - t) c v))
      else Inl (ValueError ''could not broadcast input array''))"

text \<open>\<^verbatim>\<open>np.concatenate([a, b, c], axis=0)\<close> of 2-d arrays: the column counts must agree.\<close>

fun concatenate3 :: "ndarray \<Rightarrow> ndarray \<Rightarrow> ndarray \<Rightarrow> ndarray result" where
  "concatenate3 (A2 c1 r1) (A2 c2 r2) (A2 c3 r3) =
     (if c1 = c2 \<and> c2 = c3 then Inr (A2 c1 (r1 @ r2 @ r3))
      else Inl (ValueError ''all the input array dimensions must match''))"
| "concatenate3 a b c = Inl (ValueError ''all the input arrays must have same number of dimensions'')"

text \<open>
  \<^verbatim>\<open>p.dot(m)\<close> for a 2-d array \<open>m\<close>: a scalar scales, a vector gives the vector-matrix
  product, a matrix the matrix product; the inner dimensions must agree.
\<close>

definition dot_row :: "real list \<Rightarrow> real list list \<Rightarrow> nat \<Rightarrow> real list" where
  "dot_row p rows c = map (\<lambda>j. (\<Sum>t < length p. p ! t * rows ! t ! j)) [0..<c]"

fun np_dot :: "ndarray \<Rightarrow> ndarray \<Rightarrow> ndarray result" where
  "np_dot (A0 x) (A2 c rows) = Inr (A2 c (map (map (\<lambda>y. x * y)) rows))"
| "np_dot (A1 p) (A2 c rows) =
     (if length p = length rows then Inr (A1 (dot_row p rows c))
      else Inl (ValueError ''shapes not aligned''))"
| "np_dot (A2 pc prows) (A2 c rows) =
     (if pc = length rows then Inr (A2 c (map (\<lambda>p. dot_row p rows c) prows))
      else Inl (ValueError ''shapes not aligned''))"
| "np_dot a b = Inl (ValueError ''shapes not aligned'')"

subsection \<open>\<^verbatim>\<open>np.geomspace\<close> and \<^verbatim>\<open>np.linspace\<close>\<close>

text \<open>
  \<^verbatim>\<open>np.geomspace(start, stop, num)\<close> raises \<^verbatim>\<open>ValueError\<close> when an end point is zero or
  \<open>num\<close> is negative, and for no other real arguments. For end points of the same sign
  its entries are \<open>start * (stop / start) ^ (i / (num - 1))\<close>. For end points of opposite
  sign numpy takes the logarithm of a negative number, so that the inner entries are NaN,
  and then sets the first entry to \<open>start\<close> and the last to \<open>stop\<close>: up to two
  points the grid is made of the end points, beyond that the model reports the NaN entries
  as \<open>NonFinite\<close>.
\<close>

definition np_geomspace :: "real \<Rightarrow> real \<Rightarrow> int \<Rightarrow> real list result" where
  "np_geomspace start stop num =
     (if start = 0 \<or> stop = 0 then Inl (ValueError ''Geometric sequence cannot include zero'')
      else if num < 0 then Inl (ValueError ''Number of samples must be non-negative'')
      else if start * stop < 0 then
        (if num \<le> 2 then Inr (take (nat num) [start, stop]) else Inl NonFinite)
      else Inr (map (\<lambda>i. start * (stop / start) powr (real i / real (nat num - 1))) [0..<nat num]))"

definition np_linspace :: "real \<Rightarrow> real \<Rightarrow> nat \<Rightarrow> real list" where
  "np_linspace start stop num = map (\<lambda>i. start + real i * ((stop - start) / real (num - 1))) [0..<num]"

subsection \<open>Cosmologies (\<^verbatim>\<open>cosmology.py\<close>)\<close>

text \<open>
  A cosmology is a set of parameters and possibly an engine attached to it
  (\<^verbatim>\<open>Cosmology.__init__\<close>: \<^verbatim>\<open>self._engine = engine\<close>, \<open>None\<close> by default). An engine gives
  access to its sections; the only section the filters read is
  \<^verbatim>\<open>Thermodynamics\<close>, for \<^verbatim>\<open>rs_drag\<close>. \<open>u_params\<close> holds the parameters given to the
  constructor.
\<close>

record thermodynamics =
  rs_drag :: real

record cosmo_engine =
  engine_name :: string
  thermodynamics_section :: "thermodynamics option"

record cosmology =
  u_params :: "(string \<times> real) list"
  u_engine :: "cosmo_engine option"

text \<open>\<^verbatim>\<open>Cosmology()\<close>: default parameters, no engine.\<close>

definition Cosmology :: cosmology where
  "Cosmology = \<lparr>u_params = [], u_engine = None\<rparr>"

text \<open>
  \<^verbatim>\<open>_get_cosmology_engine(cosmology, engine=None)\<close> raises \<^verbatim>\<open>CosmologyError\<close> when no
  engine is attached.
\<close>

definition get_cosmology_engine :: "cosmology \<Rightarrow> cosmo_engine result" where
  "get_cosmology_engine c =
     (case u_engine c of
        None \<Rightarrow> Inl (CosmologyError ''Please provide an engine'')
      | Some e \<Rightarrow> Inr e)"

text \<open>
  \<^verbatim>\<open>cosmology.get_thermodynamics()\<close>: the engine's getter calls the section class of the
  engine's module, which is \<open>None\<close> (and the call a \<^verbatim>\<open>TypeError\<close>) when the module has none.
\<close>

definition get_thermodynamics :: "cosmology \<Rightarrow> thermodynamics result" where
  "get_thermodynamics c =
     rbind (get_cosmology_engine c)
       (\<lambda>e. case thermodynamics_section e of None \<Rightarrow> Inl TypeError | Some t \<Rightarrow> Inr t)"

text \<open>Division of two Python floats.\<close>

definition float_div :: "real \<Rightarrow> real \<Rightarrow> real result" where
  "float_div a b = (if b = 0 then Inl ZeroDivisionError else Inr (a / b))"

subsection \<open>Interpolators\<close>

text \<open>
  Modelled from the spec: \<^verbatim>\<open>interpolator.py\<close> is not among the sources. An interpolator is
  callable at arbitrary \<open>k\<close> (and \<open>z\<close>, in the 2-d case), exposes its extrapolation
  bounds and, in the 2-d case, its list of redshifts. Called on a list of \<open>n\<close> wavenumbers,
  a 1-d interpolator returns an array of shape \<open>(n,)\<close>, a 2-d interpolator called with
  \<open>m\<close> redshifts one of shape \<open>(n, m)\<close>. The same type serves for correlation functions,
  where the bounds are \<^verbatim>\<open>extrap_smin\<close> and \<^verbatim>\<open>extrap_smax\<close>.
\<close>

datatype interpolator =
    Interpolator1D real real "real \<Rightarrow> real"
  | Interpolator2D real real "real list" "real \<Rightarrow> real \<Rightarrow> real"

fun extrap_kmin :: "interpolator \<Rightarrow> real" where
  "extrap_kmin (Interpolator1D lo hi f) = lo"
| "extrap_kmin (Interpolator2D lo hi zs f) = lo"

fun extrap_kmax :: "interpolator \<Rightarrow> real" where
  "extrap_kmax (Interpolator1D lo hi f) = hi"
| "extrap_kmax (Interpolator2D lo hi zs f) = hi"

text \<open>\<^verbatim>\<open>isinstance(interpolator, ...Interpolator2D)\<close>.\<close>

fun isinstance2d :: "interpolator \<Rightarrow> bool" where
  "isinstance2d (Interpolator1D lo hi f) = False"
| "isinstance2d (Interpolator2D lo hi zs f) = True"

text \<open>
  \<^verbatim>\<open>interpolator.z\<close>, \<^verbatim>\<open>interpolator(x, z, ignore_growth=True)\<close> and
  \<^verbatim>\<open>interpolator(x)\<close>. A 1-d interpolator has no redshifts and does not take the 2-d
  call's arguments. A 2-d interpolator called with wavenumbers alone would use a default
  redshift that the sources do not give; the model reports that call as a \<^verbatim>\<open>TypeError\<close>
  (the filters make it only if \<^verbatim>\<open>clone\<close> returned an interpolator of the other kind).
\<close>

fun interp_z :: "interpolator \<Rightarrow> real list result" where
  "interp_z (Interpolator1D lo hi f) = Inl (AttributeError ''z'')"
| "interp_z (Interpolator2D lo hi zs f) = Inr zs"

fun call2d :: "interpolator \<Rightarrow> real list \<Rightarrow> real list \<Rightarrow> ndarray result" where
  "call2d (Interpolator2D lo hi zs0 f) xs zs = Inr (A2 (length zs) (map (\<lambda>x. map (f x) zs) xs))"
| "call2d (Interpolator1D lo hi f) xs zs = Inl TypeError"

fun call1d :: "interpolator \<Rightarrow> real list \<Rightarrow> real list result" where
  "call1d (Interpolator1D lo hi f) xs = Inr (map f xs)"
| "call1d (Interpolator2D lo hi zs f) xs = Inl TypeError"

text \<open>
  The sampling of \<^verbatim>\<open>set_pk\<close>, \<^verbatim>\<open>set_xi\<close> and of the engines:
  \<^verbatim>\<open>interp(x, zsrc.z, ignore_growth=True)\<close> when \<open>is2d\<close>, else \<^verbatim>\<open>interp(x)[:, None]\<close>.
\<close>

definition sample :: "bool \<Rightarrow> interpolator \<Rightarrow> interpolator \<Rightarrow> real list \<Rightarrow> ndarray result" where
  "sample two zsrc interp xs =
     (if two then rbind (interp_z zsrc) (\<lambda>zs. call2d interp xs zs)
      else rbind (call1d interp xs) (\<lambda>ys. Inr (column ys)))"

subsection \<open>External numerical routines\<close>

text \<open>
  Each field stands for code that is not in the sources, and is given exactly the values
  the filter passes to it.
  \<^item> \<open>hinton_fit degree sigma weight k[mask] pk[mask]\<close>: lines 189--205 of
    \<^verbatim>\<open>Hinton2017PowerSpectrumBAOFilter._compute\<close> and the right-hand side of line 208,
    \<^verbatim>\<open>10 ** lss.model().T\<close> (a constrained weighted \<^verbatim>\<open>LeastSquareSolver\<close> fit).
  \<^item> \<open>savgol_filter x window\<close>: \<^verbatim>\<open>scipy.signal.savgol_filter(x, window, polyorder=4, axis=-1)\<close>.
  \<^item> \<open>eh_nowiggle cosmo\<close>: the interpolator
    \<^verbatim>\<open>Fourier(cosmo, engine='eisenstein_hu_nowiggle', set_engine=False).pk_interpolator()\<close>
    at redshift 0, as a function of \<open>k\<close>.
  \<^item> \<open>ehpoly_fit k ratio\<close>: lines 276--279 of \<^verbatim>\<open>EHNoWigglePolyPowerSpectrumBAOFilter._compute\<close>
    and \<^verbatim>\<open>lss.model()\<close>.
  \<^item> \<open>wallish_smooth shape k pk\<close>: lines 310--352 of
    \<^verbatim>\<open>Wallish2018PowerSpectrumBAOFilter._compute\<close> (sine transform, excision of the peak,
    inverse transform), from the fine grid \<open>k\<close>, the power \<open>pk\<close> on it and the shape of
    \<^verbatim>\<open>self.pk\<close>, to the smooth power on the fine grid.
  \<^item> \<open>cubic_spline x y q\<close>:
    \<^verbatim>\<open>scipy.interpolate.CubicSpline(x, y, axis=0, bc_type='clamped', extrapolate=False)(q)\<close>.
  \<^item> \<open>brieden_prepare_fit cosmo_fid k_fid\<close>: lines 387--405 of
    \<^verbatim>\<open>Brieden2022PowerSpectrumBAOFilter._prepare\<close>, returning \<^verbatim>\<open>pknow_correction\<close>,
    \<^verbatim>\<open>ratio_fid\<close>, \<^verbatim>\<open>ik_fid_peaks\<close> and \<^verbatim>\<open>ratio_now_fid\<close>.
  \<^item> \<open>brieden_interp ik_fid_peaks x y\<close>: the static method
    \<^verbatim>\<open>Brieden2022PowerSpectrumBAOFilter._interp(*ik_fid_peaks, x, y)\<close> (scipy's \<^verbatim>\<open>interp1d\<close>).
  \<^item> \<open>clone interp k pk\<close>: \<^verbatim>\<open>interp.clone(k=k, pk=pk)\<close>.
  \<^item> \<open>peakaverage_peaks cosmo_fid k\<close>: lines 446--466 of
    \<^verbatim>\<open>PeakAveragePowerSpectrumBAOFilter._prepare\<close>, returning the two arrays \<^verbatim>\<open>k_peaks\<close>.
  \<^item> \<open>peakaverage_interp xh xl x y\<close>: the static method
    \<^verbatim>\<open>PeakAveragePowerSpectrumBAOFilter._interp(xh, xl, x, y)\<close>.
  \<^item> \<open>lss_fit gradient precision y\<close>:
    \<^verbatim>\<open>LeastSquareSolver(gradient, precision=precision, compute_inverse=False)(y)\<close>, the
    fitted coefficients of an unconstrained least-squares fit.
\<close>

record externals =
  hinton_fit :: "nat \<Rightarrow> real \<Rightarrow> real \<Rightarrow> real list \<Rightarrow> ndarray \<Rightarrow> ndarray result"
  savgol_filter :: "ndarray \<Rightarrow> int \<Rightarrow> ndarray result"
  eh_nowiggle :: "cosmology \<Rightarrow> (real \<Rightarrow> real) result"
  ehpoly_fit :: "real list \<Rightarrow> ndarray \<Rightarrow> ndarray result"
  wallish_smooth :: "nat list \<Rightarrow> real list \<Rightarrow> ndarray \<Rightarrow> ndarray result"
  cubic_spline :: "real list \<Rightarrow> ndarray \<Rightarrow> real list \<Rightarrow> ndarray result"
  brieden_prepare_fit ::
    "cosmology \<Rightarrow> real list \<Rightarrow> (ndarray \<times> ndarray \<times> int list list \<times> ndarray) result"
  brieden_interp :: "int list list \<Rightarrow> real list \<Rightarrow> ndarray \<Rightarrow> ndarray result"
  clone :: "interpolator \<Rightarrow> real list \<Rightarrow> ndarray \<Rightarrow> interpolator result"
  peakaverage_peaks :: "cosmology \<Rightarrow> real list \<Rightarrow> (real list \<times> real list) result"
  peakaverage_interp :: "real list \<Rightarrow> real list \<Rightarrow> real list \<Rightarrow> ndarray \<Rightarrow> ndarray result"
  lss_fit :: "ndarray \<Rightarrow> real \<Rightarrow> ndarray \<Rightarrow> ndarray result"

subsection \<open>Power-spectrum filters: the base class\<close>

text \<open>The classes registered by \<^verbatim>\<open>RegisteredPowerSpectrumBAOFilter\<close>, with their \<^verbatim>\<open>name\<close>.\<close>

datatype ps_engine =
  Base | Hinton2017 | SavGol | EHNoWigglePoly | Wallish2018 | Brieden2022 | PeakAverage

fun name :: "ps_engine \<Rightarrow> string" where
  "name Base = ''base''"
| "name Hinton2017 = ''hinton2017''"
| "name SavGol = ''savgol''"
| "name EHNoWigglePoly = ''ehpoly''"
| "name Wallish2018 = ''wallish2018''"
| "name Brieden2022 = ''brieden2022''"
| "name PeakAverage = ''peakaverage''"

text \<open>
  The attributes of a filter object. \<open>cls\<close> is its class. Attributes that only some
  classes assign (\<open>degree\<close> to \<open>weight\<close>: Hinton2017; \<open>krange\<close>, \<open>rescale_krange\<close>:
  EHNoWigglePoly; \<open>kmask_fid\<close> to \<open>ratio_now_fid\<close>: Brieden2022; \<open>k_peaks\<close>:
  PeakAverage) hold an unused value in the objects of the other classes, and so does every
  attribute until the constructor assigns it; no method reads an attribute before it is
  assigned.
\<close>

record ps_filter =
  cls :: ps_engine
  u_cosmo :: "cosmology option"
  u_cosmo_fid :: "cosmology option"
  pk_interpolator :: interpolator
  k :: "real list"
  is2d :: bool
  pk :: ndarray
  pknow :: ndarray
  degree :: nat
  sigma :: real
  weight :: real
  krange :: "real \<times> real"
  rescale_krange :: bool
  kmask_fid :: "bool list"
  k_fid :: "real list"
  pknow_correction :: ndarray
  ratio_fid :: ndarray
  ik_fid_peaks :: "int list list"
  ratio_now_fid :: ndarray
  k_peaks :: "real list \<times> real list"

definition new_filter :: "ps_engine \<Rightarrow> ps_filter" where
  "new_filter c =
     \<lparr>cls = c, u_cosmo = None, u_cosmo_fid = None,
      pk_interpolator = Interpolator1D 0 0 (\<lambda>x. 0), k = [], is2d = False,
      pk = A1 [], pknow = A1 [], degree = 0, sigma = 0, weight = 0,
      krange = (0, 0), rescale_krange = False, kmask_fid = [], k_fid = [],
      pknow_correction = A1 [], ratio_fid = A1 [], ik_fid_peaks = [],
      ratio_now_fid = A1 [], k_peaks = ([], [])\<rparr>"

text \<open>The properties \<^verbatim>\<open>cosmo\<close> and \<^verbatim>\<open>cosmo_fid\<close> create \<^verbatim>\<open>Cosmology()\<close> on first access.\<close>

definition cosmo :: "ps_filter \<Rightarrow> cosmology \<times> ps_filter" where
  "cosmo self =
     (case u_cosmo self of
        None \<Rightarrow> (Cosmology, self\<lparr>u_cosmo := Some Cosmology\<rparr>)
      | Some c \<Rightarrow> (c, self))"

definition cosmo_fid :: "ps_filter \<Rightarrow> cosmology \<times> ps_filter" where
  "cosmo_fid self =
     (case u_cosmo_fid self of
        None \<Rightarrow> (Cosmology, self\<lparr>u_cosmo_fid := Some Cosmology\<rparr>)
      | Some c \<Rightarrow> (c, self))"

definition rs_drag_ratio :: "ps_filter \<Rightarrow> (real \<times> ps_filter) result" where
  "rs_drag_ratio self =
     (if u_cosmo self = None then Inr (1, self)
      else
        rbind
          (if u_cosmo_fid self = None then Inr (100.91463132327911, self)
           else (case cosmo_fid self of (fid, self) \<Rightarrow>
                   rbind (get_thermodynamics fid) (\<lambda>t. Inr (rs_drag t, self))))
          (\<lambda>(rs_drag_fid, self).
             case cosmo self of (c, self) \<Rightarrow>
               rbind (get_thermodynamics c)
                 (\<lambda>t. rbind (float_div (rs_drag t) rs_drag_fid) (\<lambda>r. Inr (r, self)))))"

definition set_k :: "int \<Rightarrow> ps_filter \<Rightarrow> ps_filter result" where
  "set_k nk self =
     rbind (np_geomspace (extrap_kmin (pk_interpolator self)) (extrap_kmax (pk_interpolator self)) nk)
       (\<lambda>ks. Inr (self\<lparr>k := ks\<rparr>))"

definition set_pk :: "interpolator \<Rightarrow> cosmology option \<Rightarrow> ps_filter \<Rightarrow> ps_filter result" where
  "set_pk interp c self =
     (let self = self\<lparr>u_cosmo := c, pk_interpolator := interp, is2d := isinstance2d interp\<rparr> in
      rbind (sample (is2d self) (pk_interpolator self) (pk_interpolator self) (k self))
        (\<lambda>a. Inr (self\<lparr>pk := a\<rparr>)))"

text \<open>The property \<^verbatim>\<open>wiggles\<close>; the object is returned with the value, as it is read.\<close>

definition wiggles :: "ps_filter \<Rightarrow> (ndarray \<times> ps_filter) result" where
  "wiggles self = rbind (np_divide (pk self) (pknow self)) (\<lambda>w. Inr (w, self))"

subsection \<open>Hinton2017\<close>

text \<open>
  \<^verbatim>\<open>mask = (self.k > 1e-4) & (self.k < 5.)\<close>; the fit; then
  \<^verbatim>\<open>self.pknow = self.pk.copy(); self.pknow[mask] = 10 ** lss.model().T\<close>.
\<close>

definition hinton2017_compute :: "externals \<Rightarrow> ps_filter \<Rightarrow> ps_filter result" where
  "hinton2017_compute ext self =
     (let msk = map (\<lambda>x. 1 / 10000 < x \<and> x < 5) (k self) in
      rbind (getitem_mask msk (pk self)) (\<lambda>pkm.
      rbind (hinton_fit ext (degree self) (sigma self) (weight self) (select msk (k self)) pkm) (\<lambda>fit.
      rbind (setitem_mask msk fit (pk self)) (\<lambda>a.
      Inr (self\<lparr>pknow := a\<rparr>)))))"

subsection \<open>Savitzky-Golay\<close>

text \<open>
  \<^verbatim>\<open>nfilter = int(np.ceil(np.log(7) / np.log(self.k[-1] / self.k[-2])) // 2 * 2 + 1)\<close>.
  \<^verbatim>\<open>self.k[-2]\<close> raises \<^verbatim>\<open>IndexError\<close> on a grid of fewer than two points. The other
  branches before the last write out what the floating-point expression gives where the
  real one is undefined: a ratio that is NaN or negative makes the argument of \<^verbatim>\<open>int\<close>
  NaN, as does the ratio 1 (the quotient is infinite, and its floor division by 2 is NaN);
  \<^verbatim>\<open>int\<close> then raises. An infinite or zero ratio makes the quotient zero and the
  window 1.
\<close>

definition savgol_nfilter :: "real list \<Rightarrow> int result" where
  "savgol_nfilter ks =
     (if length ks < 2 then Inl IndexError
      else
        let a = last ks; b = ks ! (length ks - 2) in
        if b = 0 then
          (if a > 0 then Inr 1 else Inl (ValueError ''cannot convert float NaN to integer''))
        else if a / b < 0 then Inl (ValueError ''cannot convert float NaN to integer'')
        else if a / b = 0 then Inr 1
        else if a / b = 1 then Inl (ValueError ''cannot convert float NaN to integer'')
        else Inr (\<lceil>ln 7 / ln (a / b)\<rceil> div 2 * 2 + 1))"

text \<open>
  \<^verbatim>\<open>self.pknow = (np.exp(savgol_filter(np.log(self.k * self.pk.T), nfilter, polyorder=4, axis=-1)) / self.k).T\<close>,
  \<^verbatim>\<open>hnfilter = nfilter // 2\<close>, \<^verbatim>\<open>self.pknow[-hnfilter:] = self.pk[-hnfilter:]\<close>.
\<close>

definition savgol_compute :: "externals \<Rightarrow> ps_filter \<Rightarrow> ps_filter result" where
  "savgol_compute ext self =
     rbind (savgol_nfilter (k self)) (\<lambda>nfilter.
     rbind (np_multiply (A1 (k self)) (np_transpose (pk self))) (\<lambda>kpk.
     rbind (savgol_filter ext (np_map ln kpk) nfilter) (\<lambda>sm.
     rbind (np_divide (np_map exp sm) (A1 (k self))) (\<lambda>q.
     let hnfilter = nfilter div 2 in
     rbind (getitem_tail hnfilter (pk self)) (\<lambda>raw.
     rbind (setitem_tail hnfilter raw (np_transpose q)) (\<lambda>a.
     Inr (self\<lparr>pknow := a\<rparr>)))))))"

subsection \<open>EHNoWigglePoly\<close>

text \<open>
  \<^verbatim>\<open>krange = np.asarray(self.krange)\<close>, divided by \<^verbatim>\<open>self.rs_drag_ratio()\<close> if
  \<^verbatim>\<open>self.rescale_krange\<close>.
\<close>

definition rescaled_krange :: "ps_filter \<Rightarrow> ((real \<times> real) \<times> ps_filter) result" where
  "rescaled_krange self =
     (if rescale_krange self
      then rbind (rs_drag_ratio self)
             (\<lambda>(r, self). Inr ((fst (krange self) / r, snd (krange self) / r), self))
      else Inr (krange self, self))"

definition ehpoly_compute :: "externals \<Rightarrow> ps_filter \<Rightarrow> ps_filter result" where
  "ehpoly_compute ext self =
     rbind (rescaled_krange self) (\<lambda>(kr, self).
     let msk = map (\<lambda>x. fst kr \<le> x \<and> x \<le> snd kr) (k self); km = select msk (k self) in
     rbind (getitem_mask msk (pk self)) (\<lambda>pkm.
     case cosmo self of (c, self) \<Rightarrow>
     rbind (eh_nowiggle ext c) (\<lambda>f.
     rbind (np_divide (np_transpose pkm) (A1 (map f km))) (\<lambda>ratio.
     rbind (ehpoly_fit ext km ratio) (\<lambda>model.
     rbind (np_divide ratio model) (\<lambda>w.
     rbind (setitem_mask msk (np_transpose w) (np_map (\<lambda>x. 1) (pk self))) (\<lambda>wig.
     rbind (np_divide (pk self) wig) (\<lambda>a.
     Inr (self\<lparr>pknow := a\<rparr>)))))))))"

subsection \<open>Wallish2018\<close>

text \<open>
  \<^verbatim>\<open>_tophat(k, kmax, scale)\<close>: ones, multiplied by
  \<^verbatim>\<open>np.exp(-scale**2 * (k / kmax - 1.)**2)\<close> where \<^verbatim>\<open>k > kmax\<close>.
\<close>

definition tophat :: "real list \<Rightarrow> real \<Rightarrow> real \<Rightarrow> real list" where
  "tophat ks kmax scale =
     map (\<lambda>x. if x > kmax then 1 * exp (- (scale ^ 2) * (x / kmax - 1) ^ 2) else 1) ks"

definition wallish2018_compute :: "externals \<Rightarrow> ps_filter \<Rightarrow> ps_filter result" where
  "wallish2018_compute ext self =
     (let kf = np_linspace (extrap_kmin (pk_interpolator self)) 2 4096 in
      rbind (sample (is2d self) (pk_interpolator self) (pk_interpolator self) kf) (\<lambda>pkf.
      rbind (wallish_smooth ext (shape (pk self)) kf pkf) (\<lambda>pkf_now.
      let msk = map (\<lambda>x. 1 / 100 < x \<and> x < 3 / 2) kf in
      rbind (getitem_mask msk pkf_now) (\<lambda>inner.
      let mask_left = map (\<lambda>x. x < 5 / 10000) (k self);
          mask_right = map (\<lambda>x. x > 2) (k self);
          knots = select mask_left (k self) @ select msk kf @ select mask_right (k self) in
      rbind (getitem_mask mask_left (pk self)) (\<lambda>left.
      rbind (getitem_mask mask_right (pk self)) (\<lambda>right.
      rbind (concatenate3 left inner right) (\<lambda>values.
      rbind (cubic_spline ext knots values (k self)) (\<lambda>stitched.
      rbind (np_divide (pk self) stitched) (\<lambda>r1.
      rbind (np_subtract r1 (A0 1)) (\<lambda>r2.
      rbind (np_multiply r2 (column (tophat (k self) 1 20))) (\<lambda>r3.
      rbind (np_add r3 (A0 1)) (\<lambda>wig.
      rbind (np_divide (pk self) wig) (\<lambda>a.
      Inr (self\<lparr>pknow := a\<rparr>))))))))))))))"

subsection \<open>Brieden2022\<close>

text \<open>
  \<^verbatim>\<open>Fourier(self.cosmo_fid)\<close> takes the engine attached to the fiducial cosmology, and
  raises when there is none; retrying after a \<^verbatim>\<open>TypeError\<close> repeats the same call.
\<close>

definition brieden2022_prepare :: "externals \<Rightarrow> ps_filter \<Rightarrow> ps_filter result" where
  "brieden2022_prepare ext self =
     (let self = self\<lparr>kmask_fid := map (\<lambda>x. 1 / 1000 \<le> x \<and> x \<le> 1) (k self)\<rparr>;
          self = self\<lparr>k_fid := select (kmask_fid self) (k self)\<rparr> in
      case cosmo_fid self of (fid, self) \<Rightarrow>
      rbind (get_cosmology_engine fid) (\<lambda>e.
      rbind (brieden_prepare_fit ext fid (k_fid self)) (\<lambda>(corr, rfid, peaks, rnow).
      Inr (self\<lparr>pknow_correction := corr, ratio_fid := rfid, ik_fid_peaks := peaks,
                ratio_now_fid := rnow\<rparr>))))"

text \<open>\<^verbatim>\<open>a *= b\<close>: the product must have the shape of \<open>a\<close>.\<close>

definition imul :: "ndarray \<Rightarrow> ndarray \<Rightarrow> ndarray result" where
  "imul a b =
     rbind (np_multiply a b) (\<lambda>p.
       if shape p = shape a then Inr p
       else Inl (ValueError ''non-broadcastable output operand''))"

definition brieden2022_compute :: "externals \<Rightarrow> ps_filter \<Rightarrow> ps_filter result" where
  "brieden2022_compute ext self =
     rbind (rs_drag_ratio self) (\<lambda>(rescale, self).
     rbind (sample (is2d self) (pk_interpolator self) (pk_interpolator self)
              (map (\<lambda>x. x / rescale) (k_fid self))) (\<lambda>pks.
     case cosmo self of (c, self) \<Rightarrow>
     rbind (eh_nowiggle ext c) (\<lambda>f.
     rbind (imul (column (map (\<lambda>x. f (x * rescale)) (k_fid self))) (pknow_correction self)) (\<lambda>now.
     rbind (np_divide pks now) (\<lambda>r1.
     rbind (np_divide r1 (ratio_fid self)) (\<lambda>ratio.
     rbind (brieden_interp ext (ik_fid_peaks self) (k_fid self) ratio) (\<lambda>avg.
     rbind (np_multiply avg now) (\<lambda>p1.
     rbind (np_multiply p1 (ratio_now_fid self)) (\<lambda>smooth.
     rbind (clone ext (pk_interpolator self) (map (\<lambda>x. x / rescale) (k_fid self)) smooth) (\<lambda>interp.
     rbind (sample (is2d self) (pk_interpolator self) interp (k_fid self)) (\<lambda>v.
     rbind (setitem_mask (kmask_fid self) v (pk self)) (\<lambda>a.
     Inr (self\<lparr>pknow := a\<rparr>)))))))))))))"

subsection \<open>PeakAverage\<close>

definition peakaverage_prepare :: "externals \<Rightarrow> ps_filter \<Rightarrow> ps_filter result" where
  "peakaverage_prepare ext self =
     (case cosmo_fid self of (fid, self) \<Rightarrow>
      rbind (get_cosmology_engine fid) (\<lambda>e.
      rbind (peakaverage_peaks ext fid (k self)) (\<lambda>kp.
      Inr (self\<lparr>k_peaks := kp\<rparr>))))"

definition peakaverage_compute :: "externals \<Rightarrow> ps_filter \<Rightarrow> ps_filter result" where
  "peakaverage_compute ext self =
     rbind (rs_drag_ratio self) (\<lambda>(rescale, self).
     case cosmo self of (c, self) \<Rightarrow>
     rbind (eh_nowiggle ext c) (\<lambda>f.
     let now = column (map f (k self)) in
     rbind (np_divide (pk self) now) (\<lambda>y.
     rbind (peakaverage_interp ext (map (\<lambda>x. x / rescale) (fst (k_peaks self)))
              (map (\<lambda>x. x / rescale) (snd (k_peaks self))) (k self) y) (\<lambda>avg.
     rbind (np_multiply avg now) (\<lambda>a.
     Inr (self\<lparr>pknow := a\<rparr>))))))"

subsection \<open>Construction and re-invocation\<close>

text \<open>
  \<^verbatim>\<open>_prepare\<close> and \<^verbatim>\<open>_compute\<close> by class. The base class defines no \<^verbatim>\<open>_compute\<close>.
\<close>

definition prepare :: "externals \<Rightarrow> ps_filter \<Rightarrow> ps_filter result" where
  "prepare ext self =
     (case cls self of
        Brieden2022 \<Rightarrow> brieden2022_prepare ext self
      | PeakAverage \<Rightarrow> peakaverage_prepare ext self
      | _ \<Rightarrow> Inr self)"

definition compute :: "externals \<Rightarrow> ps_filter \<Rightarrow> ps_filter result" where
  "compute ext self =
     (case cls self of
        Base \<Rightarrow> Inl (AttributeError ''_compute'')
      | Hinton2017 \<Rightarrow> hinton2017_compute ext self
      | SavGol \<Rightarrow> savgol_compute ext self
      | EHNoWigglePoly \<Rightarrow> ehpoly_compute ext self
      | Wallish2018 \<Rightarrow> wallish2018_compute ext self
      | Brieden2022 \<Rightarrow> brieden2022_compute ext self
      | PeakAverage \<Rightarrow> peakaverage_compute ext self)"

text \<open>
  The keyword arguments of the constructors; \<open>None\<close> is an argument that is not given.
  \<^verbatim>\<open>krange_damp\<close> and \<^verbatim>\<open>sigma_damp\<close> of EHNoWigglePoly, which the class never reads,
  are left out.
\<close>

record kwargs =
  kw_cosmo :: "cosmology option"
  kw_cosmo_fid :: "cosmology option"
  kw_nk :: "int option"
  kw_degree :: "nat option"
  kw_sigma :: "real option"
  kw_weight :: "real option"
  kw_krange :: "(real \<times> real) option"
  kw_rescale_krange :: "bool option"

definition no_kwargs :: kwargs where
  "no_kwargs = \<lparr>kw_cosmo = None, kw_cosmo_fid = None, kw_nk = None, kw_degree = None,
     kw_sigma = None, kw_weight = None, kw_krange = None, kw_rescale_krange = None\<rparr>"

text \<open>
  \<^verbatim>\<open>BasePowerSpectrumBAOFilter.__init__(self, pk_interpolator, cosmo=None, cosmo_fid=None, **kwargs)\<close>.
  \<open>extra\<close> tells that \<^verbatim>\<open>kwargs\<close> holds a keyword other than \<^verbatim>\<open>nk\<close>, which
  \<^verbatim>\<open>self.set_k(**kwargs)\<close> rejects.
\<close>

definition base_init ::
  "externals \<Rightarrow> ps_filter \<Rightarrow> interpolator \<Rightarrow> cosmology option \<Rightarrow> cosmology option \<Rightarrow>
   int option \<Rightarrow> bool \<Rightarrow> ps_filter result" where
  "base_init ext self interp c fid nk extra =
     (let self = self\<lparr>u_cosmo_fid := fid, pk_interpolator := interp\<rparr> in
      if extra then Inl TypeError
      else
        rbind (set_k (case nk of None \<Rightarrow> 1024 | Some n \<Rightarrow> n) self) (\<lambda>self.
        rbind (set_pk interp c self) (\<lambda>self.
        rbind (prepare ext self) (\<lambda>self.
        compute ext self))))"

definition the_default :: "'a \<Rightarrow> 'a option \<Rightarrow> 'a" where
  "the_default d x = (case x of None \<Rightarrow> d | Some v \<Rightarrow> v)"

text \<open>
  The constructor of each class. A subclass constructor stores its own arguments
  (\<open>subclass_init\<close>) and calls the base constructor with the remaining keywords;
  \<open>rejected_kwargs\<close> tells whether a keyword remains that \<^verbatim>\<open>set_k\<close> does not take.
\<close>

definition subclass_init :: "ps_engine \<Rightarrow> kwargs \<Rightarrow> ps_filter" where
  "subclass_init c kw =
     (case c of
        Hinton2017 \<Rightarrow>
          (new_filter c)\<lparr>degree := the_default 13 (kw_degree kw),
             sigma := the_default (1 / 2) (kw_sigma kw),
             weight := the_default (9 / 10) (kw_weight kw)\<rparr>
      | EHNoWigglePoly \<Rightarrow>
          (new_filter c)\<lparr>krange := the_default (1 / 1000, 1) (kw_krange kw),
             rescale_krange := the_default True (kw_rescale_krange kw)\<rparr>
      | _ \<Rightarrow> new_filter c)"

definition rejected_kwargs :: "ps_engine \<Rightarrow> kwargs \<Rightarrow> bool" where
  "rejected_kwargs c kw =
     (case c of
        Hinton2017 \<Rightarrow> kw_krange kw \<noteq> None \<or> kw_rescale_krange kw \<noteq> None
      | EHNoWigglePoly \<Rightarrow> kw_degree kw \<noteq> None \<or> kw_sigma kw \<noteq> None \<or> kw_weight kw \<noteq> None
      | _ \<Rightarrow> kw_degree kw \<noteq> None \<or> kw_sigma kw \<noteq> None \<or> kw_weight kw \<noteq> None
             \<or> kw_krange kw \<noteq> None \<or> kw_rescale_krange kw \<noteq> None)"

definition init :: "externals \<Rightarrow> ps_engine \<Rightarrow> interpolator \<Rightarrow> kwargs \<Rightarrow> ps_filter result" where
  "init ext c interp kw =
     base_init ext (subclass_init c kw) interp (kw_cosmo kw) (kw_cosmo_fid kw) (kw_nk kw)
       (rejected_kwargs c kw)"

text \<open>
  \<^verbatim>\<open>__call__(self, pk_interpolator, cosmo=None)\<close>: after the computation,
  \<^verbatim>\<open>self.pk, self.pknow = self.pk[..., 0], self.pknow[..., 0]\<close> unless \<^verbatim>\<open>self.is2d\<close>.
\<close>

definition call :: "externals \<Rightarrow> ps_filter \<Rightarrow> interpolator \<Rightarrow> cosmology option \<Rightarrow> ps_filter result" where
  "call ext self interp c =
     rbind (set_pk interp c self) (\<lambda>self.
     rbind (compute ext self) (\<lambda>self.
     if \<not> is2d self
     then rbind (ellipsis0 (pk self)) (\<lambda>a.
          rbind (ellipsis0 (pknow self)) (\<lambda>b.
          Inr (self\<lparr>pk := a, pknow := b\<rparr>)))
     else Inr self))"

subsection \<open>The factory of power-spectrum filters\<close>

text \<open>
  The metaclass stores each class under its \<^verbatim>\<open>name\<close> as the class is created.
  \<^verbatim>\<open>str.lower\<close> is modelled on ASCII strings.
\<close>

definition registry :: "string \<Rightarrow> ps_engine option" where
  "registry =
     map_of (map (\<lambda>c. (name c, c))
       [Base, Hinton2017, SavGol, EHNoWigglePoly, Wallish2018, Brieden2022, PeakAverage])"

definition lower_char :: "char \<Rightarrow> char" where
  "lower_char c =
     (case map_of (zip ''ABCDEFGHIJKLMNOPQRSTUVWXYZ'' ''abcdefghijklmnopqrstuvwxyz'') c of
        None \<Rightarrow> c
      | Some l \<Rightarrow> l)"

definition lower :: "string \<Rightarrow> string" where
  "lower s = map lower_char s"

text \<open>
  \<^verbatim>\<open>PowerSpectrumBAOFilter(pk_interpolator, engine='wallish2018', **kwargs)\<close>. The name in
  the message is the lowered one, as \<^verbatim>\<open>engine\<close> has been reassigned.
\<close>

definition PowerSpectrumBAOFilter ::
  "externals \<Rightarrow> interpolator \<Rightarrow> string option \<Rightarrow> kwargs \<Rightarrow> ps_filter result" where
  "PowerSpectrumBAOFilter ext interp engine kw =
     (let engine = lower (the_default ''wallish2018'' engine) in
      case registry engine of
        None \<Rightarrow> Inl (ValueError (''Power spectrum BAO filter '' @ engine @ '' is unknown''))
      | Some c \<Rightarrow> init ext c interp kw)"

subsection \<open>Correlation-function filters\<close>

datatype cf_engine = BaseXi | Kirkby2013

fun name_xi :: "cf_engine \<Rightarrow> string" where
  "name_xi BaseXi = ''base''"
| "name_xi Kirkby2013 = ''kirkby2013''"

text \<open>
  The attributes of a correlation-function filter. \<open>u_cosmo_xi\<close>, \<open>u_cosmo_fid_xi\<close> and
  \<open>is2d_xi\<close> are the attributes \<^verbatim>\<open>_cosmo\<close>, \<^verbatim>\<open>_cosmo_fid\<close> and \<^verbatim>\<open>is2d\<close> of
  \<^verbatim>\<open>BaseCorrelationFunctionBAOFilter\<close>.
\<close>

record cf_filter =
  cls_xi :: cf_engine
  u_cosmo_xi :: "cosmology option"
  u_cosmo_fid_xi :: "cosmology option"
  xi_interpolator :: interpolator
  s :: "real list"
  is2d_xi :: bool
  xi :: ndarray
  xinow :: ndarray
  srange_left :: "real \<times> real"
  srange_right :: "real \<times> real"
  rescale_sbox :: bool

definition new_filter_xi :: "cf_engine \<Rightarrow> cf_filter" where
  "new_filter_xi c =
     \<lparr>cls_xi = c, u_cosmo_xi = None, u_cosmo_fid_xi = None,
      xi_interpolator = Interpolator1D 0 0 (\<lambda>x. 0), s = [], is2d_xi = False,
      xi = A1 [], xinow = A1 [], srange_left = (0, 0), srange_right = (0, 0),
      rescale_sbox = False\<rparr>"

definition cosmo_xi :: "cf_filter \<Rightarrow> cosmology \<times> cf_filter" where
  "cosmo_xi self =
     (case u_cosmo_xi self of
        None \<Rightarrow> (Cosmology, self\<lparr>u_cosmo_xi := Some Cosmology\<rparr>)
      | Some c \<Rightarrow> (c, self))"

definition cosmo_fid_xi :: "cf_filter \<Rightarrow> cosmology \<times> cf_filter" where
  "cosmo_fid_xi self =
     (case u_cosmo_fid_xi self of
        None \<Rightarrow> (Cosmology, self\<lparr>u_cosmo_fid_xi := Some Cosmology\<rparr>)
      | Some c \<Rightarrow> (c, self))"

definition rs_drag_ratio_xi :: "cf_filter \<Rightarrow> (real \<times> cf_filter) result" where
  "rs_drag_ratio_xi self =
     (if u_cosmo_xi self = None then Inr (1, self)
      else
        rbind
          (if u_cosmo_fid_xi self = None then Inr (100.91463132327911, self)
           else (case cosmo_fid_xi self of (fid, self) \<Rightarrow>
                   rbind (get_thermodynamics fid) (\<lambda>t. Inr (rs_drag t, self))))
          (\<lambda>(rs_drag_fid, self).
             case cosmo_xi self of (c, self) \<Rightarrow>
               rbind (get_thermodynamics c)
                 (\<lambda>t. rbind (float_div (rs_drag t) rs_drag_fid) (\<lambda>r. Inr (r, self)))))"

definition set_s :: "int \<Rightarrow> cf_filter \<Rightarrow> cf_filter result" where
  "set_s ns self =
     rbind (np_geomspace (extrap_kmin (xi_interpolator self)) (extrap_kmax (xi_interpolator self)) ns)
       (\<lambda>ss. Inr (self\<lparr>s := ss\<rparr>))"

definition set_xi :: "interpolator \<Rightarrow> cosmology option \<Rightarrow> cf_filter \<Rightarrow> cf_filter result" where
  "set_xi interp c self =
     (let self = self\<lparr>u_cosmo_xi := c, xi_interpolator := interp, is2d_xi := isinstance2d interp\<rparr> in
      rbind (sample (is2d_xi self) (xi_interpolator self) (xi_interpolator self) (s self))
        (\<lambda>a. Inr (self\<lparr>xi := a\<rparr>)))"

text \<open>
  Kirkby2013. \<^verbatim>\<open>model(s) = np.array([s**(1 - i) for i in range(5)])\<close>, of shape
  \<open>(5, len(s))\<close>.
\<close>

definition model :: "real list \<Rightarrow> ndarray" where
  "model ss = A2 (length ss) (map (\<lambda>i. map (\<lambda>x. x powi (1 - int i)) ss) [0..<5])"

text \<open>
  \<^verbatim>\<open>srange_left\<close> and \<^verbatim>\<open>srange_right\<close>, multiplied by \<^verbatim>\<open>self.rs_drag_ratio()\<close> if
  \<^verbatim>\<open>self.rescale_sbox\<close>.
\<close>

definition rescaled_sranges ::
  "cf_filter \<Rightarrow> (((real \<times> real) \<times> (real \<times> real)) \<times> cf_filter) result" where
  "rescaled_sranges self =
     (if rescale_sbox self
      then rbind (rs_drag_ratio_xi self)
             (\<lambda>(rescale, self).
                Inr (((fst (srange_left self) * rescale, snd (srange_left self) * rescale),
                      (fst (srange_right self) * rescale, snd (srange_right self) * rescale)), self))
      else Inr ((srange_left self, srange_right self), self))"

definition kirkby2013_compute :: "externals \<Rightarrow> cf_filter \<Rightarrow> cf_filter result" where
  "kirkby2013_compute ext self =
     rbind (rescaled_sranges self) (\<lambda>((sl, sr), self).
     let msk = map (\<lambda>x. (fst sl \<le> x \<and> x \<le> snd sl) \<or> (fst sr \<le> x \<and> x \<le> snd sr)) (s self) in
     rbind (getitem_mask msk (xi self)) (\<lambda>xim.
     rbind (lss_fit ext (model (select msk (s self))) 1 (np_transpose xim)) (\<lambda>params.
     let msk = map (\<lambda>x. snd sl < x \<and> x < fst sr) (s self) in
     rbind (np_dot params (model (select msk (s self)))) (\<lambda>v.
     rbind (setitem_mask msk (np_transpose v) (xi self)) (\<lambda>a.
     Inr (self\<lparr>xinow := a\<rparr>))))))"

definition compute_xi :: "externals \<Rightarrow> cf_filter \<Rightarrow> cf_filter result" where
  "compute_xi ext self =
     (case cls_xi self of
        BaseXi \<Rightarrow> Inl (AttributeError ''_compute'')
      | Kirkby2013 \<Rightarrow> kirkby2013_compute ext self)"

record kwargs_xi =
  kx_cosmo :: "cosmology option"
  kx_cosmo_fid :: "cosmology option"
  kx_ns :: "int option"
  kx_srange_left :: "(real \<times> real) option"
  kx_srange_right :: "(real \<times> real) option"
  kx_rescale_sbox :: "bool option"

definition no_kwargs_xi :: kwargs_xi where
  "no_kwargs_xi = \<lparr>kx_cosmo = None, kx_cosmo_fid = None, kx_ns = None, kx_srange_left = None,
     kx_srange_right = None, kx_rescale_sbox = None\<rparr>"

text \<open>
  \<^verbatim>\<open>BaseCorrelationFunctionBAOFilter.__init__\<close>; its \<^verbatim>\<open>_prepare\<close> does nothing, and no
  subclass overrides it.
\<close>

definition base_init_xi ::
  "externals \<Rightarrow> cf_filter \<Rightarrow> interpolator \<Rightarrow> cosmology option \<Rightarrow> cosmology option \<Rightarrow>
   int option \<Rightarrow> bool \<Rightarrow> cf_filter result" where
  "base_init_xi ext self interp c fid ns extra =
     (let self = self\<lparr>u_cosmo_fid_xi := fid, xi_interpolator := interp\<rparr> in
      if extra then Inl TypeError
      else
        rbind (set_s (case ns of None \<Rightarrow> 1024 | Some n \<Rightarrow> n) self) (\<lambda>self.
        rbind (set_xi interp c self) (\<lambda>self.
        compute_xi ext self)))"

definition subclass_init_xi :: "cf_engine \<Rightarrow> kwargs_xi \<Rightarrow> cf_filter" where
  "subclass_init_xi c kw =
     (case c of
        Kirkby2013 \<Rightarrow>
          (new_filter_xi c)\<lparr>srange_left := the_default (50, 82) (kx_srange_left kw),
             srange_right := the_default (150, 190) (kx_srange_right kw),
             rescale_sbox := the_default True (kx_rescale_sbox kw)\<rparr>
      | BaseXi \<Rightarrow> new_filter_xi c)"

definition rejected_kwargs_xi :: "cf_engine \<Rightarrow> kwargs_xi \<Rightarrow> bool" where
  "rejected_kwargs_xi c kw =
     (case c of
        Kirkby2013 \<Rightarrow> False
      | BaseXi \<Rightarrow> kx_srange_left kw \<noteq> None \<or> kx_srange_right kw \<noteq> None \<or> kx_rescale_sbox kw \<noteq> None)"

definition init_xi :: "externals \<Rightarrow> cf_engine \<Rightarrow> interpolator \<Rightarrow> kwargs_xi \<Rightarrow> cf_filter result" where
  "init_xi ext c interp kw =
     base_init_xi ext (subclass_init_xi c kw) interp (kx_cosmo kw) (kx_cosmo_fid kw) (kx_ns kw)
       (rejected_kwargs_xi c kw)"

definition call_xi :: "externals \<Rightarrow> cf_filter \<Rightarrow> interpolator \<Rightarrow> cosmology option \<Rightarrow> cf_filter result" where
  "call_xi ext self interp c =
     rbind (set_xi interp c self) (\<lambda>self.
     rbind (compute_xi ext self) (\<lambda>self.
     if \<not> is2d_xi self
     then rbind (ellipsis0 (xi self)) (\<lambda>a.
          rbind (ellipsis0 (xinow self)) (\<lambda>b.
          Inr (self\<lparr>xi := a, xinow := b\<rparr>)))
     else Inr self))"

definition registry_xi :: "string \<Rightarrow> cf_engine option" where
  "registry_xi = map_of (map (\<lambda>c. (name_xi c, c)) [BaseXi, Kirkby2013])"

definition CorrelationFunctionBAOFilter ::
  "externals \<Rightarrow> interpolator \<Rightarrow> string option \<Rightarrow> kwargs_xi \<Rightarrow> cf_filter result" where
  "CorrelationFunctionBAOFilter ext interp engine kw =
     (let engine = lower (the_default ''kirkby2013'' engine) in
      case registry_xi engine of
        None \<Rightarrow> Inl (ValueError (''Correlation function BAO filter '' @ engine @ '' is unknown''))
      | Some c \<Rightarrow> init_xi ext c interp kw)"

subsection \<open>Entries\<close>


subsection \<open>The polynomial of the Kirkby2013 claim\<close>

text \<open>
  Written from the claim's words, to state what the filled entries are: the value at \<open>x\<close>
  of the polynomial with coefficients \<open>p\<close> in the basis \<open>x^(1-i)\<close>, \<open>i = 0, 1, \<dots>\<close>.
\<close>

definition poly_value :: "real list \<Rightarrow> real \<Rightarrow> real" where
  "poly_value p x = (\<Sum>t<length p. p ! t * x powi (1 - int t))"

subsection \<open>Contracts of the external routines\<close>

text \<open>
  What the libraries document about the shapes of their results:
  \<^verbatim>\<open>savgol_filter\<close> returns an array of the shape of its input;
  \<^verbatim>\<open>CubicSpline(x, y, axis=0)(q)\<close> has the shape of \<open>q\<close> followed by the shape of \<open>y\<close>
  without its first axis; so has the result of \<^verbatim>\<open>interp1d(..., axis=0)(x)\<close>, which
  \<^verbatim>\<open>PeakAveragePowerSpectrumBAOFilter._interp\<close> returns.
\<close>

definition shape_contracts :: "externals \<Rightarrow> bool" where
  "shape_contracts ext \<longleftrightarrow>
     (\<forall>x w y. savgol_filter ext x w = Inr y \<longrightarrow> shape y = shape x)
   \<and> (\<forall>x y q r. cubic_spline ext x y q = Inr r \<longrightarrow> shape r = length q # tl (shape y))
   \<and> (\<forall>xh xl x y r. peakaverage_interp ext xh xl x y = Inr r \<longrightarrow> shape r = length x # tl (shape y))"


subsection \<open>Example inputs\<close>


text \<open>
  Inputs at which the theorems below are instantiated. \<open>ext0\<close> gives each external
  routine a simple value of the right shape; its spline, \<open>knot_spline\<close>, takes rows of
  equal length at strictly increasing knots and returns the value at a knot for a query
  that is a knot and zeros elsewhere; its polynomial fit
  raises \<^verbatim>\<open>IndexError\<close>, as line 277 does, when fewer than two wavenumbers are left in
  the fitting range; its least-squares solver returns the constant polynomial 7 for every
  column.
\<close>

definition knot_spline :: "real list \<Rightarrow> ndarray \<Rightarrow> real list \<Rightarrow> ndarray result" where
  "knot_spline x y q =
     (case y of
        A2 c rows \<Rightarrow>
          if list_all (\<lambda>r. length r = c) rows \<and> length rows = length x \<and> sorted_wrt (<) x
          then Inr (A2 c (map (\<lambda>v. case map_of (zip x rows) v of None \<Rightarrow> replicate c 0 | Some row \<Rightarrow> row) q))
          else Inl (ValueError ''x must be strictly increasing'')
      | _ \<Rightarrow> Inl (ValueError ''y must be 2-d''))"

definition ext0 :: externals where
  "ext0 =
     \<lparr>hinton_fit = (\<lambda>d sg w ks a. Inr a),
      savgol_filter = (\<lambda>x w. Inr x),
      eh_nowiggle = (\<lambda>c. Inr (\<lambda>x. 1)),
      ehpoly_fit = (\<lambda>ks r. if length ks < 2 then Inl IndexError else Inr r),
      wallish_smooth = (\<lambda>sh ks a. Inr a),
      cubic_spline = knot_spline,
      brieden_prepare_fit = (\<lambda>c ks. Inr (A0 1, A0 1, [[0], [0]], A0 1)),
      brieden_interp = (\<lambda>p x y. Inr y),
      clone =
        (\<lambda>i ks a. Inr (case i of
           Interpolator1D lo hi f \<Rightarrow> Interpolator1D lo hi (\<lambda>x. 5)
         | Interpolator2D lo hi zs f \<Rightarrow> Interpolator2D lo hi zs (\<lambda>x z. 5))),
      peakaverage_peaks = (\<lambda>c ks. Inr (ks, ks)),
      peakaverage_interp =
        (\<lambda>xh xl x y. if shape y = length x # tl (shape y) then Inr y else Inl (ValueError ''shape'')),
      lss_fit = (\<lambda>g p y. Inr (A2 5 (map (\<lambda>r. [0, 7, 0, 0, 0]) (vrows y))))\<rparr>"

definition interp0 :: interpolator where
  "interp0 = Interpolator1D 1 4 (\<lambda>x. 2)"

definition kwargs2 :: kwargs where
  "kwargs2 = no_kwargs\<lparr>kw_nk := Some 2\<rparr>"

definition ehpoly_interp :: interpolator where
  "ehpoly_interp = Interpolator1D (1 / 4) 1 (\<lambda>x. 2)"

definition ehpoly_built :: ps_filter where
  "ehpoly_built =
     (new_filter EHNoWigglePoly)\<lparr>u_cosmo := Some Cosmology, pk_interpolator := ehpoly_interp,
        k := [1 / 4, 1], pk := A2 1 [[2], [2]], pknow := A2 1 [[2], [2]],
        krange := (1 / 1000, 1), rescale_krange := True\<rparr>"

definition degenerate_interp :: interpolator where
  "degenerate_interp = Interpolator1D 1 1 (\<lambda>x. 3)"

definition degenerate_start :: ps_filter where
  "degenerate_start = (new_filter Wallish2018)\<lparr>pk_interpolator := degenerate_interp\<rparr>"

definition zero_start :: ps_filter where
  "zero_start = (new_filter Wallish2018)\<lparr>pk_interpolator := Interpolator1D 0 1 (\<lambda>x. 3)\<rparr>"

definition hinton_built :: ps_filter where
  "hinton_built =
     (new_filter Hinton2017)\<lparr>pk_interpolator := interp0, k := [1, 4], pk := A2 1 [[2], [2]],
        pknow := A2 1 [[2], [2]], degree := 13, sigma := 1 / 2, weight := 9 / 10\<rparr>"

definition hinton_called :: ps_filter where
  "hinton_called = hinton_built\<lparr>pk := A1 [2, 2], pknow := A1 [2, 2]\<rparr>"

definition xi_interp0 :: interpolator where
  "xi_interp0 = Interpolator1D 60 240 (\<lambda>x. x)"

definition kwargs_xi3 :: kwargs_xi where
  "kwargs_xi3 = no_kwargs_xi\<lparr>kx_ns := Some 3\<rparr>"

definition kirkby_built :: cf_filter where
  "kirkby_built =
     (new_filter_xi Kirkby2013)\<lparr>xi_interpolator := xi_interp0, s := [60, 120, 240],
        xi := A2 1 [[60], [120], [240]], xinow := A2 1 [[60], [7], [240]],
        srange_left := (50, 82), srange_right := (150, 190), rescale_sbox := True\<rparr>"

definition kirkby_called :: cf_filter where
  "kirkby_called = kirkby_built\<lparr>xi := A1 [60, 120, 240], xinow := A1 [60, 7, 240]\<rparr>"

definition fid0 :: cosmology where
  "fid0 = \<lparr>u_params = [],
            u_engine = Some \<lparr>engine_name = ''class'', thermodynamics_section = Some \<lparr>rs_drag = 100\<rparr>\<rparr>\<rparr>"

definition brieden_interp0 :: interpolator where
  "brieden_interp0 = Interpolator1D (1 / 2) 2 (\<lambda>x. 3)"

definition brieden_kwargs :: kwargs where
  "brieden_kwargs = no_kwargs\<lparr>kw_nk := Some 2, kw_cosmo_fid := Some fid0\<rparr>"

definition brieden_built :: ps_filter where
  "brieden_built =
     (new_filter Brieden2022)\<lparr>u_cosmo := Some Cosmology, u_cosmo_fid := Some fid0,
        pk_interpolator := brieden_interp0, k := [1 / 2, 2], pk := A2 1 [[3], [3]],
        pknow := A2 1 [[5], [3]], kmask_fid := [True, False], k_fid := [1 / 2],
        pknow_correction := A0 1, ratio_fid := A0 1, ik_fid_peaks := [[0], [0]],
        ratio_now_fid := A0 1\<rparr>"

definition reversed_interp :: interpolator where
  "reversed_interp = Interpolator1D 4 1 (\<lambda>x. 3)"

definition reversed_start :: ps_filter where
  "reversed_start = (new_filter Wallish2018)\<lparr>pk_interpolator := reversed_interp\<rparr>"











section \<open>Basic facts\<close>

lemma rbind_Inr [simp]: "rbind (Inr x) f = f x"
  by (simp add: rbind_def)

lemma rbind_Inl [simp]: "rbind (Inl e) f = Inl e"
  by (simp add: rbind_def)

lemma rbind_eq_Inr: "rbind m f = Inr y \<longleftrightarrow> (\<exists>x. m = Inr x \<and> f x = Inr y)"
  by (cases m) simp_all

lemma rbindE: "rbind m f = Inr y \<Longrightarrow> (\<And>x. m = Inr x \<Longrightarrow> f x = Inr y \<Longrightarrow> P) \<Longrightarrow> P"
  by (cases m) simp_all

lemma length_stretch [simp]: "length (stretch n xs) = n"
  by (simp add: stretch_def)

lemma length_bview [simp]: "length (bview r c a) = r"
  by (simp add: bview_def)

lemma bview_same: "wf a \<Longrightarrow> vshape a = (r, c) \<Longrightarrow> bview r c a = vrows a"
  by (cases a) (auto simp: bview_def stretch_def list_all_iff map_idI)






subsection \<open>Shapes\<close>

lemma shape2: "shape a = [n, c] \<Longrightarrow> vshape a = (n, c) \<and> ndim a = 2"
  by (cases a) auto


lemma bdim_simps [simp]: "bdim n n = Some n" "bdim n 1 = Some n" "bdim 1 n = Some n"
  "bdim n (Suc 0) = Some n" "bdim (Suc 0) n = Some n"
  by (auto simp: bdim_def)

lemma unview2 [simp]: "unview 2 c rows = A2 c rows"
  by (simp add: unview_def)

lemma np_binop_2d:
  assumes "np_binop f a b = Inr w" "ndim a = 2 \<or> ndim b = 2"
  shows "\<exists>r c. bdim (fst (vshape a)) (fst (vshape b)) = Some r
      \<and> bdim (snd (vshape a)) (snd (vshape b)) = Some c
      \<and> w = A2 c (map2 (map2 f) (bview r c a) (bview r c b))"
proof -
  from assms(2) have m: "max (ndim a) (ndim b) = 2"
    by (cases a; cases b) auto
  from assms(1) show ?thesis
    by (auto simp: np_binop_def m split: option.splits)
qed

lemma shape_np_binop:
  assumes "np_binop f a b = Inr w" "ndim a = 2 \<or> ndim b = 2"
    and "bdim (fst (vshape a)) (fst (vshape b)) = Some r"
    and "bdim (snd (vshape a)) (snd (vshape b)) = Some c"
  shows "shape w = [r, c]"
  using np_binop_2d[OF assms(1,2)] assms(3,4) by auto

lemma shape_binop_same:
  assumes "np_binop f a b = Inr w" "shape a = [n, c]" "shape b = [n, c]"
  shows "shape w = [n, c]"
  using shape_np_binop[OF assms(1), of n c] shape2[OF assms(2)] shape2[OF assms(3)] by simp

lemma shape_binop_scalar:
  assumes "np_binop f a (A0 x) = Inr w" "shape a = [n, c]"
  shows "shape w = [n, c]"
  using shape_np_binop[OF assms(1), of n c] shape2[OF assms(2)] by simp

lemma shape_binop_column:
  assumes "np_binop f a (column xs) = Inr w" "shape a = [length xs, c]"
  shows "shape w = [length xs, c]"
  using shape_np_binop[OF assms(1), of "length xs" c] shape2[OF assms(2)] by (simp add: column_def)

lemma shape_binop_row_left:
  assumes "np_binop f (A1 xs) b = Inr w" "shape b = [c, length xs]"
  shows "shape w = [c, length xs]"
  using shape_np_binop[OF assms(1), of c "length xs"] shape2[OF assms(2)] by simp

lemma shape_binop_row_right:
  assumes "np_binop f a (A1 xs) = Inr w" "shape a = [c, length xs]"
  shows "shape w = [c, length xs]"
  using shape_np_binop[OF assms(1), of c "length xs"] shape2[OF assms(2)] by simp

lemma shape_np_map [simp]: "shape (np_map f a) = shape a"
  by (cases a) auto

lemma shape_np_transpose: "shape a = [n, c] \<Longrightarrow> shape (np_transpose a) = [c, n]"
  by (cases a) auto

lemma length_scatter [simp]: "length (scatter m xs vs) = length xs"
  by (induction m xs vs rule: scatter.induct) auto

lemma shape_setitem_mask: "setitem_mask m v a = Inr b \<Longrightarrow> shape b = shape a"
  by (cases a) (auto split: if_splits)

lemma tail_start_le: "tail_start n h \<le> n"
  by (simp add: tail_start_def)

lemma shape_setitem_tail:
  "setitem_tail h v a = Inr b \<Longrightarrow> shape a = [n, c] \<Longrightarrow> shape b = [n, c]"
  by (cases a) (auto simp: Let_def tail_start_le split: if_splits)

lemma length_select: "length m = length xs \<Longrightarrow> length (select m xs) = count_true m"
proof (induction m arbitrary: xs)
  case Nil
  then show ?case by (simp add: select_def count_true_def)
next
  case (Cons b m)
  then show ?case by (cases xs) (auto simp: select_def count_true_def)
qed

lemma shape_getitem_mask:
  "getitem_mask m a = Inr b \<Longrightarrow> shape a = [n, c] \<Longrightarrow> shape b = [count_true m, c]"
  by (cases a) (auto simp: length_select split: if_splits)

lemma cosmo_frame:
  "cosmo self = (c, st) \<Longrightarrow> pk st = pk self \<and> k st = k self \<and> is2d st = is2d self
     \<and> kmask_fid st = kmask_fid self \<and> k_fid st = k_fid self \<and> pk_interpolator st = pk_interpolator self"
  by (auto simp: cosmo_def split: option.splits)

lemma length_tophat [simp]: "length (tophat ks kmax scale) = length ks"
  by (simp add: tophat_def)

lemma shape_concatenate3:
  "concatenate3 x y z = Inr v \<Longrightarrow> shape x = [n, c] \<Longrightarrow> \<exists>m. shape v = [m, c]"
  by (cases x; cases y; cases z) (auto split: if_splits)

section \<open>The factories\<close>

lemma name_inj: "name a = name b \<Longrightarrow> a = b"
  by (cases a; cases b) simp_all

lemma registry_name: "registry (name c) = Some c"
  by (cases c) (simp_all add: registry_def)

lemma registry_Some: "registry x = Some c \<Longrightarrow> x = name c"
  by (auto simp: registry_def split: if_splits)

lemma registry_None: "registry x = None \<longleftrightarrow> (\<forall>c. x \<noteq> name c)"
  by (metis registry_name registry_Some option.exhaust option.distinct(1))

lemma registry_xi_name: "registry_xi (name_xi c) = Some c"
  by (cases c) (simp_all add: registry_xi_def)

lemma registry_xi_Some: "registry_xi x = Some c \<Longrightarrow> x = name_xi c"
  by (auto simp: registry_xi_def split: if_splits)

lemma registry_xi_None: "registry_xi x = None \<longleftrightarrow> (\<forall>c. x \<noteq> name_xi c)"
  by (metis registry_xi_name registry_xi_Some option.exhaust option.distinct(1))

text \<open>
  C4. For an engine string whose lowercase form is not a registered name, each factory
  raises a \<^verbatim>\<open>ValueError\<close> whose message names the (lowered) string, whatever the other
  arguments are: no constructor runs. For a string whose lowercase form is the name of a
  class, the factory returns what the constructor of that class returns.
\<close>

theorem factory_lookup:
  "((\<forall>c. lower e \<noteq> name c) \<longrightarrow>
      (\<forall>ext interp kw. PowerSpectrumBAOFilter ext interp (Some e) kw
         = Inl (ValueError (''Power spectrum BAO filter '' @ lower e @ '' is unknown''))))
   \<and> (\<forall>c. lower e = name c \<longrightarrow>
      (\<forall>ext interp kw. PowerSpectrumBAOFilter ext interp (Some e) kw = init ext c interp kw))
   \<and> ((\<forall>c. lower e \<noteq> name_xi c) \<longrightarrow>
      (\<forall>ext interp kw. CorrelationFunctionBAOFilter ext interp (Some e) kw
         = Inl (ValueError (''Correlation function BAO filter '' @ lower e @ '' is unknown''))))
   \<and> (\<forall>c. lower e = name_xi c \<longrightarrow>
      (\<forall>ext interp kw. CorrelationFunctionBAOFilter ext interp (Some e) kw = init_xi ext c interp kw))"
proof (intro conjI impI allI)
  fix ext interp kw
  assume "\<forall>c. lower e \<noteq> name c"
  then have "registry (lower e) = None" by (simp add: registry_None)
  then show "PowerSpectrumBAOFilter ext interp (Some e) kw
         = Inl (ValueError (''Power spectrum BAO filter '' @ lower e @ '' is unknown''))"
    by (simp add: PowerSpectrumBAOFilter_def the_default_def Let_def)
next
  fix c ext interp kw
  assume "lower e = name c"
  then have "registry (lower e) = Some c" by (simp add: registry_name)
  then show "PowerSpectrumBAOFilter ext interp (Some e) kw = init ext c interp kw"
    by (simp add: PowerSpectrumBAOFilter_def the_default_def Let_def)
next
  fix ext interp kw
  assume "\<forall>c. lower e \<noteq> name_xi c"
  then have "registry_xi (lower e) = None" by (simp add: registry_xi_None)
  then show "CorrelationFunctionBAOFilter ext interp (Some e) kw
         = Inl (ValueError (''Correlation function BAO filter '' @ lower e @ '' is unknown''))"
    by (simp add: CorrelationFunctionBAOFilter_def the_default_def Let_def)
next
  fix c ext interp kw
  assume "lower e = name_xi c"
  then have "registry_xi (lower e) = Some c" by (simp add: registry_xi_name)
  then show "CorrelationFunctionBAOFilter ext interp (Some e) kw = init_xi ext c interp kw"
    by (simp add: CorrelationFunctionBAOFilter_def the_default_def Let_def)
qed

lemma lower_Foo: "lower ''Foo'' = ''foo''" and lower_SavGol: "lower ''SavGol'' = ''savgol''"
  and lower_Kirkby: "lower ''KIRKBY2013'' = ''kirkby2013''"
  by (simp_all add: lower_def lower_char_def)

theorem factory_lookup_witness:
  "PowerSpectrumBAOFilter ext0 interp0 (Some ''Foo'') no_kwargs
     = Inl (ValueError ''Power spectrum BAO filter foo is unknown'')
   \<and> PowerSpectrumBAOFilter ext0 interp0 (Some ''SavGol'') no_kwargs = init ext0 SavGol interp0 no_kwargs
   \<and> CorrelationFunctionBAOFilter ext0 interp0 (Some ''Foo'') no_kwargs_xi
     = Inl (ValueError ''Correlation function BAO filter foo is unknown'')
   \<and> CorrelationFunctionBAOFilter ext0 interp0 (Some ''KIRKBY2013'') no_kwargs_xi
     = init_xi ext0 Kirkby2013 interp0 no_kwargs_xi"
proof -
  have a: "\<forall>c. lower ''Foo'' \<noteq> name c"
  proof
    fix c show "lower ''Foo'' \<noteq> name c" by (cases c) (simp_all add: lower_Foo)
  qed
  have b: "\<forall>c. lower ''Foo'' \<noteq> name_xi c"
  proof
    fix c show "lower ''Foo'' \<noteq> name_xi c" by (cases c) (simp_all add: lower_Foo)
  qed
  have c: "lower ''SavGol'' = name SavGol" "lower ''KIRKBY2013'' = name_xi Kirkby2013"
    by (simp_all add: lower_SavGol lower_Kirkby)
  show ?thesis
    using factory_lookup[of "''Foo''"] factory_lookup[of "''SavGol''"]
      factory_lookup[of "''KIRKBY2013''"] a b c
    by (simp add: lower_Foo)
qed

section \<open>The ratio of sound horizons\<close>

lemma geom2: "np_geomspace 1 4 2 = Inr [1, 4]"
  by (simp add: np_geomspace_def upt_rec)

lemma rs_drag_ratio_None: "u_cosmo st = None \<Longrightarrow> rs_drag_ratio st = Inr (1, st)"
  by (simp add: rs_drag_ratio_def)

lemma ehpoly_example: "init ext0 EHNoWigglePoly ehpoly_interp kwargs2 = Inr ehpoly_built"
  apply (simp add: init_def subclass_init_def rejected_kwargs_def base_init_def kwargs2_def no_kwargs_def the_default_def new_filter_def
      set_k_def ehpoly_interp_def np_geomspace_def upt_rec set_pk_def sample_def column_def Let_def prepare_def compute_def
      ehpoly_compute_def rescaled_krange_def rs_drag_ratio_def select_def cosmo_def ext0_def ehpoly_built_def)
  apply (simp add: np_divide_def np_binop_def bdim_def bview_def stretch_def unview_def count_true_def fits_def)
  done

lemma rs_drag_ratio_state: "rs_drag_ratio st = Inr (r, st') \<Longrightarrow> st' = st"
  by (auto simp: rs_drag_ratio_def cosmo_def cosmo_fid_def elim!: rbindE split: if_splits option.splits)

lemma rs_drag_ratio_snd: "rs_drag_ratio self = Inr x \<Longrightarrow> snd x = self"
  using rs_drag_ratio_state[of self "fst x" "snd x"] by simp

lemma cosmo_snd:
  "pk (snd (cosmo self)) = pk self" "k (snd (cosmo self)) = k self" "is2d (snd (cosmo self)) = is2d self"
  by (auto simp: cosmo_def split: option.splits)

lemma rs_drag_ratio_xi_state: "rs_drag_ratio_xi st = Inr x \<Longrightarrow> snd x = st"
  by (cases x)
    (auto simp: rs_drag_ratio_xi_def cosmo_xi_def cosmo_fid_xi_def elim!: rbindE
      split: if_splits option.splits)

lemma get_thermodynamics_Cosmology:
  "get_thermodynamics Cosmology = Inl (CosmologyError ''Please provide an engine'')"
  by (simp add: get_thermodynamics_def get_cosmology_engine_def Cosmology_def)

lemma rs_drag_ratio_default_raises:
  assumes "u_cosmo st = Some Cosmology"
  shows "\<exists>e. rs_drag_ratio st = Inl e"
proof (cases "if u_cosmo_fid st = None then Inr (100.91463132327911, st)
           else (case cosmo_fid st of (fid, self) \<Rightarrow>
                   rbind (get_thermodynamics fid) (\<lambda>t. Inr (rs_drag t, self)))")
  case (Inl e)
  then show ?thesis using assms by (simp add: rs_drag_ratio_def)
next
  case (Inr p)
  obtain x st' where p: "p = (x, st')" by (cases p)
  have "st' = st"
    using Inr p by (auto simp: cosmo_fid_def elim!: rbindE split: if_splits option.splits)
  then show ?thesis
    using assms Inr p by (simp add: rs_drag_ratio_def cosmo_def get_thermodynamics_Cosmology)
qed

lemma ehpoly_compute_cosmo:
  "ehpoly_compute ext self = Inr st \<Longrightarrow> u_cosmo self = None \<Longrightarrow> u_cosmo st = Some Cosmology"
  by (auto simp: ehpoly_compute_def rescaled_krange_def rs_drag_ratio_def cosmo_def Let_def
      elim!: rbindE split: if_splits)

lemma brieden2022_compute_cosmo:
  "brieden2022_compute ext self = Inr st \<Longrightarrow> u_cosmo self = None \<Longrightarrow> u_cosmo st = Some Cosmology"
  by (auto simp: brieden2022_compute_def rs_drag_ratio_def cosmo_def Let_def elim!: rbindE split: if_splits)

lemma peakaverage_compute_cosmo:
  "peakaverage_compute ext self = Inr st \<Longrightarrow> u_cosmo self = None \<Longrightarrow> u_cosmo st = Some Cosmology"
  by (auto simp: peakaverage_compute_def rs_drag_ratio_def cosmo_def Let_def elim!: rbindE split: if_splits)

lemma set_pk_cosmo: "set_pk interp c self = Inr st \<Longrightarrow> u_cosmo st = c"
  by (auto simp: set_pk_def Let_def elim!: rbindE)

lemma prepare_cosmo: "prepare ext self = Inr st \<Longrightarrow> u_cosmo st = u_cosmo self"
  by (auto simp: prepare_def brieden2022_prepare_def peakaverage_prepare_def cosmo_fid_def Let_def
      elim!: rbindE split: ps_engine.splits option.splits)

lemma prepare_cls: "prepare ext self = Inr st \<Longrightarrow> cls st = cls self"
  by (auto simp: prepare_def brieden2022_prepare_def peakaverage_prepare_def cosmo_fid_def Let_def
      elim!: rbindE split: ps_engine.splits option.splits)

lemma set_pk_cls: "set_pk interp c self = Inr st \<Longrightarrow> cls st = cls self"
  by (auto simp: set_pk_def Let_def elim!: rbindE)

lemma set_k_cls: "set_k nk self = Inr st \<Longrightarrow> cls st = cls self"
  by (auto simp: set_k_def elim!: rbindE)

lemma base_init_steps:
  assumes "base_init ext self interp c fid nk extra = Inr st"
  obtains s1 s2 s3 where
    "set_k (case nk of None \<Rightarrow> 1024 | Some n \<Rightarrow> n) (self\<lparr>u_cosmo_fid := fid, pk_interpolator := interp\<rparr>) = Inr s1"
    "set_pk interp c s1 = Inr s2" "prepare ext s2 = Inr s3" "compute ext s3 = Inr st"
  using assms by (auto simp: base_init_def Let_def elim!: rbindE split: if_splits)

lemma cls_subclass_init: "cls (subclass_init c kw) = c"
  by (cases c) (simp_all add: subclass_init_def new_filter_def)

text \<open>
  C1. The claim fails on the classes whose \<^verbatim>\<open>_compute\<close> reads the property
  \<^verbatim>\<open>self.cosmo\<close> (EHNoWigglePoly, Brieden2022, PeakAverage). Built without a current
  cosmology, such a filter ends its construction with \<^verbatim>\<open>_cosmo\<close> holding the engine-less
  \<^verbatim>\<open>Cosmology()\<close> that the property created, and \<^verbatim>\<open>rs_drag_ratio()\<close> then raises
  instead of returning 1.
\<close>

theorem rs_drag_ratio_after_default_cosmology:
  assumes "c = EHNoWigglePoly \<or> c = Brieden2022 \<or> c = PeakAverage"
    and "kw_cosmo kw = None"
    and "init ext c interp kw = Inr st"
  shows "u_cosmo st = Some Cosmology \<and> (\<exists>e. rs_drag_ratio st = Inl e)"
proof -
  define self where "self = subclass_init c kw"
  have self: "cls self = c"
    "base_init ext self interp (kw_cosmo kw) (kw_cosmo_fid kw) (kw_nk kw) (rejected_kwargs c kw) = Inr st"
    using assms(3) by (simp_all add: self_def cls_subclass_init init_def)
  from base_init_steps[OF self(2)] obtain s1 s2 s3 where
    steps: "set_k (case kw_nk kw of None \<Rightarrow> 1024 | Some n \<Rightarrow> n)
              (self\<lparr>u_cosmo_fid := kw_cosmo_fid kw, pk_interpolator := interp\<rparr>) = Inr s1"
      "set_pk interp (kw_cosmo kw) s1 = Inr s2" "prepare ext s2 = Inr s3" "compute ext s3 = Inr st"
    by blast
  have c3: "cls s3 = c"
    using steps(1-3) self(1) by (simp add: prepare_cls set_pk_cls set_k_cls)
  have n3: "u_cosmo s3 = None"
    using steps(2,3) assms(2) by (simp add: prepare_cosmo set_pk_cosmo)
  have "u_cosmo st = Some Cosmology"
    using assms(1) steps(4) c3 n3
    by (auto simp: compute_def ehpoly_compute_cosmo brieden2022_compute_cosmo peakaverage_compute_cosmo)
  then show ?thesis by (simp add: rs_drag_ratio_default_raises)
qed

theorem rs_drag_ratio_after_default_cosmology_witness:
  "kw_cosmo kwargs2 = None \<and> init ext0 EHNoWigglePoly ehpoly_interp kwargs2 = Inr ehpoly_built
   \<and> u_cosmo ehpoly_built = Some Cosmology
   \<and> rs_drag_ratio ehpoly_built = Inl (CosmologyError ''Please provide an engine'')"
proof -
  have a: "kw_cosmo kwargs2 = None" by (simp add: kwargs2_def no_kwargs_def)
  from rs_drag_ratio_after_default_cosmology[OF _ a ehpoly_example]
  have "u_cosmo ehpoly_built = Some Cosmology" by simp
  moreover have "rs_drag_ratio ehpoly_built = Inl (CosmologyError ''Please provide an engine'')"
    by (simp add: rs_drag_ratio_def ehpoly_built_def new_filter_def cosmo_def get_thermodynamics_Cosmology)
  ultimately show ?thesis using a ehpoly_example by simp
qed

section \<open>Shapes of the raw and smooth arrays\<close>

lemma rescaled_krange_state: "rescaled_krange self = Inr (kr, st) \<Longrightarrow> st = self"
  by (auto simp: rescaled_krange_def elim!: rbindE dest: rs_drag_ratio_state split: if_splits)

lemma rescaled_sranges_state: "rescaled_sranges self = Inr (rg, st) \<Longrightarrow> st = self"
  by (auto simp: rescaled_sranges_def elim!: rbindE dest: rs_drag_ratio_xi_state split: if_splits)

lemma hinton2017_shape:
  assumes "pk self = A2 c a" "hinton2017_compute ext self = Inr st"
  shows "shape (pknow st) = [length a, c] \<and> pk st = pk self \<and> k st = k self \<and> is2d st = is2d self"
  using assms(2)
  apply (simp add: hinton2017_compute_def Let_def rbind_eq_Inr)
  apply (elim exE conjE)
  subgoal premises p for pkm fit b
    using shape_setitem_mask[OF p(3)] p(4) assms(1) by auto
  done

lemma savgol_shape:
  assumes "shape_contracts ext" "pk self = A2 c a" "length a = length (k self)"
    and "savgol_compute ext self = Inr st"
  shows "shape (pknow st) = [length a, c] \<and> pk st = pk self \<and> k st = k self \<and> is2d st = is2d self"
  using assms(4)
  apply (simp add: savgol_compute_def Let_def rbind_eq_Inr)
  apply (elim exE conjE)
  subgoal premises p for nfilter kpk sm q raw b
  proof -
    have "shape (np_transpose (pk self)) = [c, length (k self)]"
      using assms(2,3) by simp
    then have "shape kpk = [c, length (k self)]"
      using p(2) by (simp add: np_multiply_def shape_binop_row_left)
    then have "shape sm = [c, length (k self)]"
      using p(3) assms(1) by (auto simp: shape_contracts_def)
    then have "shape q = [c, length (k self)]"
      using p(4) by (simp add: np_divide_def shape_binop_row_right)
    then have "shape (np_transpose q) = [length (k self), c]"
      by (rule shape_np_transpose)
    then have "shape b = [length (k self), c]"
      using p(6) by (rule shape_setitem_tail[rotated])
    then show ?thesis using p(7) assms(3) by auto
  qed
  done

lemma ehpoly_shape:
  assumes "pk self = A2 c a" "ehpoly_compute ext self = Inr st"
  shows "shape (pknow st) = [length a, c] \<and> pk st = pk self \<and> k st = k self \<and> is2d st = is2d self"
  using assms(2)
  apply (simp add: ehpoly_compute_def Let_def rbind_eq_Inr case_prod_beta)
  apply (elim exE conjE)
  subgoal premises p for k0 k1 s0 pkm f ratio fit w wig b
  proof -
    have s0: "s0 = self" using p(1) by (rule rescaled_krange_state)
    note fr = cosmo_frame[OF surjective_pairing, of self]
    have "shape wig = [length a, c]"
      using shape_setitem_mask[OF p(7)] assms(1) fr by (simp add: s0)
    then have "shape b = [length a, c]"
      using p(8) assms(1) fr by (simp add: s0 np_divide_def shape_binop_same)
    then show ?thesis using p(9) fr by (auto simp: s0)
  qed
  done

lemma brieden2022_shape:
  assumes "pk self = A2 c a" "brieden2022_compute ext self = Inr st"
  shows "shape (pknow st) = [length a, c] \<and> pk st = pk self \<and> k st = k self \<and> is2d st = is2d self"
  using assms(2)
  apply (simp add: brieden2022_compute_def Let_def rbind_eq_Inr case_prod_beta)
  apply (elim exE conjE)
  subgoal premises p for r s0 pks f now r1 ratio avg p1 smooth interp v b
  proof -
    have s0: "s0 = self" using p(1) by (rule rs_drag_ratio_state)
    note fr = cosmo_frame[OF surjective_pairing, of self]
    show ?thesis
      using shape_setitem_mask[OF p(12)] p(13) assms(1) fr by (auto simp: s0)
  qed
  done

lemma peakaverage_shape:
  assumes "shape_contracts ext" "pk self = A2 c a" "length a = length (k self)"
    and "peakaverage_compute ext self = Inr st"
  shows "shape (pknow st) = [length a, c] \<and> pk st = pk self \<and> k st = k self \<and> is2d st = is2d self"
  using assms(4)
  apply (simp add: peakaverage_compute_def Let_def rbind_eq_Inr case_prod_beta)
  apply (elim exE conjE)
  subgoal premises p for r s0 f y avg b
  proof -
    have s0: "s0 = self" using p(1) by (rule rs_drag_ratio_state)
    note fr = cosmo_frame[OF surjective_pairing, of self]
    let ?col = "column (map f (k self))"
    have y: "np_binop (\<lambda>x y. x / y) (pk self) ?col = Inr y"
      using p(3) fr by (simp add: s0 np_divide_def)
    have "shape y = [length (map f (k self)), c]"
      using assms(2,3) by (intro shape_binop_column[OF y]) simp
    moreover have "peakaverage_interp ext (map (\<lambda>x. x / r) (fst (k_peaks (snd (cosmo self)))))
        (map (\<lambda>x. x / r) (snd (k_peaks (snd (cosmo self))))) (k self) y = Inr avg"
      using p(4) fr by (simp add: s0)
    ultimately have avg: "shape avg = [length (map f (k self)), c]"
      using assms(1) by (auto simp: shape_contracts_def)
    have b: "np_binop (\<lambda>x y. x * y) avg ?col = Inr b"
      using p(5) fr by (simp add: s0 np_multiply_def)
    have "shape b = [length (map f (k self)), c]"
      by (rule shape_binop_column[OF b avg])
    then show ?thesis using p(6) fr assms(3) by (auto simp: s0)
  qed
  done

lemma wallish2018_shape:
  assumes "shape_contracts ext" "pk self = A2 c a" "length a = length (k self)"
    and "wallish2018_compute ext self = Inr st"
  shows "shape (pknow st) = [length a, c] \<and> pk st = pk self \<and> k st = k self \<and> is2d st = is2d self"
  using assms(4)
  apply (simp add: wallish2018_compute_def Let_def rbind_eq_Inr)
  apply (elim exE conjE)
  subgoal premises p for pkf pkf_now inner left right vals stitched r1 r2 r3 wig b
  proof -
    let ?n = "length (k self)"
    have pks: "shape (pk self) = [?n, c]" using assms(2,3) by simp
    from shape_getitem_mask[OF p(4) pks] shape_concatenate3[OF p(6)]
    obtain m where "shape vals = [m, c]" by blast
    then have "shape stitched = [?n, c]"
      using p(7) assms(1) by (auto simp: shape_contracts_def)
    then have "shape r1 = [?n, c]"
      using p(8) pks by (simp add: np_divide_def shape_binop_same)
    then have r2: "shape r2 = [length (tophat (k self) 1 20), c]"
      using p(9) by (simp add: np_subtract_def shape_binop_scalar)
    have "shape r3 = [length (tophat (k self) 1 20), c]"
      using p(10) unfolding np_multiply_def by (rule shape_binop_column[OF _ r2])
    then have "shape wig = [?n, c]"
      using p(11) by (simp add: np_add_def shape_binop_scalar)
    then have "shape b = [?n, c]"
      using p(12) pks by (simp add: np_divide_def shape_binop_same)
    then show ?thesis using p(13) assms(3) by auto
  qed
  done

lemma kirkby2013_shape:
  assumes "xi self = A2 c a" "kirkby2013_compute ext self = Inr st"
  shows "shape (xinow st) = [length a, c] \<and> xi st = xi self \<and> s st = s self \<and> is2d_xi st = is2d_xi self"
  using assms(2)
  apply (simp add: kirkby2013_compute_def Let_def rbind_eq_Inr case_prod_beta)
  apply (elim exE conjE)
  subgoal premises p for l0 l1 r0 r1 s0 xim params v b
  proof -
    have s0: "s0 = self" using p(1) by (rule rescaled_sranges_state)
    show ?thesis
      using shape_setitem_mask[OF p(5)] p(6) assms(1) by (auto simp: s0)
  qed
  done

lemma sample_A2:
  assumes "sample two zsrc interp xs = Inr a"
  shows "\<exists>c rows. a = A2 c rows \<and> length rows = length xs \<and> (\<not> two \<longrightarrow> c = 1)"
  using assms
  by (cases interp; cases zsrc; cases two) (auto simp: sample_def column_def)

lemma set_pk_frame:
  assumes "set_pk interp co self = Inr st"
  shows "k st = k self \<and> is2d st = isinstance2d interp \<and> cls st = cls self
    \<and> (\<exists>c a. pk st = A2 c a \<and> length a = length (k self) \<and> (\<not> isinstance2d interp \<longrightarrow> c = 1))"
  using assms
  apply (simp add: set_pk_def Let_def rbind_eq_Inr)
  apply (elim exE conjE)
  subgoal premises p for a
    using sample_A2[OF p(1)] p(2) by auto
  done

lemma prepare_frame:
  assumes "prepare ext self = Inr st"
  shows "pk st = pk self \<and> k st = k self \<and> is2d st = is2d self \<and> cls st = cls self"
proof (cases "cls self")
  case Brieden2022
  with assms show ?thesis
    by (auto simp: prepare_def brieden2022_prepare_def Let_def rbind_eq_Inr cosmo_fid_def
        split: option.splits)
next
  case PeakAverage
  with assms show ?thesis
    by (auto simp: prepare_def peakaverage_prepare_def Let_def rbind_eq_Inr cosmo_fid_def
        split: option.splits)
qed (use assms in \<open>auto simp: prepare_def\<close>)

lemma compute_shape:
  assumes "shape_contracts ext" "pk self = A2 c a" "length a = length (k self)"
    and "compute ext self = Inr st"
  shows "shape (pknow st) = [length a, c] \<and> pk st = pk self \<and> k st = k self \<and> is2d st = is2d self"
proof (cases "cls self")
  case Base
  with assms(4) show ?thesis by (simp add: compute_def)
next
  case Hinton2017
  with assms(4) have "hinton2017_compute ext self = Inr st" by (simp add: compute_def)
  with assms(2) show ?thesis by (rule hinton2017_shape)
next
  case SavGol
  with assms(4) have "savgol_compute ext self = Inr st" by (simp add: compute_def)
  with assms(1-3) show ?thesis by (rule savgol_shape)
next
  case EHNoWigglePoly
  with assms(4) have "ehpoly_compute ext self = Inr st" by (simp add: compute_def)
  with assms(2) show ?thesis by (rule ehpoly_shape)
next
  case Wallish2018
  with assms(4) have "wallish2018_compute ext self = Inr st" by (simp add: compute_def)
  with assms(1-3) show ?thesis by (rule wallish2018_shape)
next
  case Brieden2022
  with assms(4) have "brieden2022_compute ext self = Inr st" by (simp add: compute_def)
  with assms(2) show ?thesis by (rule brieden2022_shape)
next
  case PeakAverage
  with assms(4) have "peakaverage_compute ext self = Inr st" by (simp add: compute_def)
  with assms(1-3) show ?thesis by (rule peakaverage_shape)
qed

lemma set_k_frame:
  assumes "set_k nk self = Inr st"
  shows "np_geomspace (extrap_kmin (pk_interpolator self)) (extrap_kmax (pk_interpolator self)) nk
           = Inr (k st)"
  using assms by (auto simp: set_k_def rbind_eq_Inr)

lemma init_shape:
  assumes "shape_contracts ext" "init ext c interp kw = Inr st"
  shows "\<exists>m a b. pk st = A2 m a \<and> length a = length (k st) \<and> shape (pknow st) = [length (k st), m]
      \<and> (\<not> isinstance2d interp \<longrightarrow> m = 1)
      \<and> np_geomspace (extrap_kmin interp) (extrap_kmax interp)
           (case kw_nk kw of None \<Rightarrow> 1024 | Some n \<Rightarrow> n) = Inr (k st)"
proof -
  from assms(2) obtain s1 s2 s3 where
    steps: "set_k (case kw_nk kw of None \<Rightarrow> 1024 | Some n \<Rightarrow> n)
              ((subclass_init c kw)\<lparr>u_cosmo_fid := kw_cosmo_fid kw, pk_interpolator := interp\<rparr>) = Inr s1"
      "set_pk interp (kw_cosmo kw) s1 = Inr s2" "prepare ext s2 = Inr s3" "compute ext s3 = Inr st"
    unfolding init_def by (rule base_init_steps)
  from set_pk_frame[OF steps(2)] obtain m a where
    s2: "k s2 = k s1" "pk s2 = A2 m a" "length a = length (k s1)" "\<not> isinstance2d interp \<longrightarrow> m = 1"
    by blast
  from prepare_frame[OF steps(3)] s2 have
    s3: "k s3 = k s1" "pk s3 = A2 m a" "length a = length (k s3)" by simp_all
  from compute_shape[OF assms(1) s3(2,3) steps(4)] s3 have
    st: "shape (pknow st) = [length a, m]" "pk st = A2 m a" "k st = k s1" by simp_all
  from set_k_frame[OF steps(1)] have "np_geomspace (extrap_kmin interp) (extrap_kmax interp)
           (case kw_nk kw of None \<Rightarrow> 1024 | Some n \<Rightarrow> n) = Inr (k s1)" by simp
  with st s2 show ?thesis by simp
qed

lemma ellipsis0_column: "shape a = [n, 1] \<Longrightarrow> \<exists>b. ellipsis0 a = Inr b \<and> shape b = [n]"
  by (cases a) auto

lemma call_shape:
  assumes "shape_contracts ext" "call ext st0 interp co = Inr st"
  shows "k st = k st0 \<and> shape (pknow st) = shape (pk st)
     \<and> (if isinstance2d interp then \<exists>m. shape (pk st) = [length (k st0), m]
         else shape (pk st) = [length (k st0)])"
  using assms(2)
  apply (simp add: call_def rbind_eq_Inr)
  apply (elim exE conjE)
  subgoal premises p for s1 s2
  proof -
    from set_pk_frame[OF p(1)] obtain m a where
      s1: "k s1 = k st0" "is2d s1 = isinstance2d interp" "pk s1 = A2 m a"
        "length a = length (k s1)" "\<not> isinstance2d interp \<longrightarrow> m = 1"
      by auto
    from compute_shape[OF assms(1) s1(3,4) p(2)] s1 have
      s2: "shape (pknow s2) = [length (k st0), m]" "pk s2 = A2 m a" "k s2 = k st0"
        "is2d s2 = isinstance2d interp" by simp_all
    show ?thesis
    proof (cases "isinstance2d interp")
      case True
      with p(3) s2 s1 show ?thesis by auto
    next
      case False
      with s1 have m: "m = 1" by simp
      from False p(3) s2 obtain x y where
        xy: "ellipsis0 (pk s2) = Inr x" "ellipsis0 (pknow s2) = Inr y" "st = s2\<lparr>pk := x, pknow := y\<rparr>"
        by (auto simp: rbind_eq_Inr)
      have "shape (pk s2) = [length (k st0), 1]" using s2 s1 m by simp
      from ellipsis0_column[OF this] ellipsis0_column[OF s2(1)[unfolded m]] xy
      show ?thesis using False s2 by auto
    qed
  qed
  done


lemma set_xi_frame:
  assumes "set_xi interp co self = Inr st"
  shows "s st = s self \<and> is2d_xi st = isinstance2d interp \<and> cls_xi st = cls_xi self
    \<and> (\<exists>c a. xi st = A2 c a \<and> length a = length (s self) \<and> (\<not> isinstance2d interp \<longrightarrow> c = 1))"
  using assms
  apply (simp add: set_xi_def Let_def rbind_eq_Inr)
  apply (elim exE conjE)
  subgoal premises p for a
    using sample_A2[OF p(1)] p(2) by auto
  done

lemma compute_xi_shape:
  assumes "xi self = A2 c a" "compute_xi ext self = Inr st"
  shows "shape (xinow st) = [length a, c] \<and> xi st = xi self \<and> s st = s self \<and> is2d_xi st = is2d_xi self"
proof (cases "cls_xi self")
  case BaseXi
  with assms(2) show ?thesis by (simp add: compute_xi_def)
next
  case Kirkby2013
  with assms(2) have "kirkby2013_compute ext self = Inr st" by (simp add: compute_xi_def)
  with assms(1) show ?thesis by (rule kirkby2013_shape)
qed

lemma set_s_frame:
  assumes "set_s ns self = Inr st"
  shows "np_geomspace (extrap_kmin (xi_interpolator self)) (extrap_kmax (xi_interpolator self)) ns
           = Inr (s st)"
  using assms by (auto simp: set_s_def rbind_eq_Inr)

lemma init_xi_shape:
  assumes "init_xi ext c interp kw = Inr st"
  shows "\<exists>m a. xi st = A2 m a \<and> length a = length (s st) \<and> shape (xinow st) = [length (s st), m]
      \<and> (\<not> isinstance2d interp \<longrightarrow> m = 1)
      \<and> np_geomspace (extrap_kmin interp) (extrap_kmax interp)
           (case kx_ns kw of None \<Rightarrow> 1024 | Some n \<Rightarrow> n) = Inr (s st)"
  using assms
  apply (simp add: init_xi_def base_init_xi_def Let_def rbind_eq_Inr split: if_splits)
  apply (elim exE conjE)
  subgoal premises p for s1 s2
  proof -
    from set_xi_frame[OF p(3)] obtain m a where
      s2: "s s2 = s s1" "xi s2 = A2 m a" "length a = length (s s1)" "\<not> isinstance2d interp \<longrightarrow> m = 1"
      by blast
    from compute_xi_shape[OF s2(2) p(4)] s2 have
      st: "shape (xinow st) = [length a, m]" "xi st = A2 m a" "s st = s s1" by simp_all
    from set_s_frame[OF p(2)] have "np_geomspace (extrap_kmin interp) (extrap_kmax interp)
           (case kx_ns kw of None \<Rightarrow> 1024 | Some n \<Rightarrow> n) = Inr (s s1)" by simp
    with st s2 show ?thesis by simp
  qed
  done

lemma call_xi_shape:
  assumes "call_xi ext st0 interp co = Inr st"
  shows "s st = s st0 \<and> shape (xinow st) = shape (xi st)
     \<and> (if isinstance2d interp then \<exists>m. shape (xi st) = [length (s st0), m]
         else shape (xi st) = [length (s st0)])"
  using assms
  apply (simp add: call_xi_def rbind_eq_Inr)
  apply (elim exE conjE)
  subgoal premises p for s1 s2
  proof -
    from set_xi_frame[OF p(1)] obtain m a where
      s1: "s s1 = s st0" "is2d_xi s1 = isinstance2d interp" "xi s1 = A2 m a"
        "length a = length (s s1)" "\<not> isinstance2d interp \<longrightarrow> m = 1"
      by auto
    from compute_xi_shape[OF s1(3) p(2)] s1 have
      s2: "shape (xinow s2) = [length (s st0), m]" "xi s2 = A2 m a" "s s2 = s st0"
        "is2d_xi s2 = isinstance2d interp" by simp_all
    show ?thesis
    proof (cases "isinstance2d interp")
      case True
      with p(3) s2 s1 show ?thesis by auto
    next
      case False
      with s1 have m: "m = 1" by simp
      from False p(3) s2 obtain x y where
        xy: "ellipsis0 (xi s2) = Inr x" "ellipsis0 (xinow s2) = Inr y" "st = s2\<lparr>xi := x, xinow := y\<rparr>"
        by (auto simp: rbind_eq_Inr)
      have "shape (xi s2) = [length (s st0), 1]" using s2 s1 m by simp
      from ellipsis0_column[OF this] ellipsis0_column[OF s2(1)[unfolded m]] xy
      show ?thesis using False s2 by auto
    qed
  qed
  done

lemma np_binop_shape_same:
  assumes "shape a = shape b"
  shows "\<exists>w. np_binop f a b = Inr w \<and> shape w = shape a"
  using assms by (cases a; cases b) (auto simp: np_binop_def unview_def bview_def stretch_def)

lemma wiggles_shape:
  "shape (pk st) = shape (pknow st) \<Longrightarrow> \<exists>w. wiggles st = Inr (w, st) \<and> shape w = shape (pk st)"
  using np_binop_shape_same[of "pk st" "pknow st" "\<lambda>x y. x / y"]
  by (auto simp: wiggles_def np_divide_def)

lemma shape_contracts_ext0: "shape_contracts ext0"
  by (auto simp: shape_contracts_def ext0_def knot_spline_def split: ndarray.splits if_splits)

lemma geom3: "np_geomspace 60 240 3 = Inr [60, 120, 240]"
  by (simp add: np_geomspace_def upt_rec powr_half_sqrt)

lemma hinton_example: "init ext0 Hinton2017 interp0 kwargs2 = Inr hinton_built"
  by (simp add: init_def subclass_init_def rejected_kwargs_def base_init_def kwargs2_def
      no_kwargs_def the_default_def new_filter_def set_k_def interp0_def geom2 set_pk_def
      sample_def column_def Let_def prepare_def compute_def hinton2017_compute_def select_def
      ext0_def hinton_built_def count_true_def fits_def bview_def stretch_def)

lemma hinton_call_example: "call ext0 hinton_built interp0 None = Inr hinton_called"
  by (simp add: call_def hinton_built_def hinton_called_def new_filter_def interp0_def set_pk_def
      sample_def column_def Let_def compute_def hinton2017_compute_def select_def
      ext0_def count_true_def fits_def bview_def stretch_def)

lemma sum5: "(\<Sum>t<(5::nat). g t) = g 0 + g 1 + g 2 + g 3 + (g 4 :: real)"
  by (simp add: eval_nat_numeral lessThan_Suc)

lemma kirkby_example: "init_xi ext0 Kirkby2013 xi_interp0 kwargs_xi3 = Inr kirkby_built"
  by (simp add: init_xi_def subclass_init_xi_def rejected_kwargs_xi_def base_init_xi_def
      kwargs_xi3_def no_kwargs_xi_def the_default_def new_filter_xi_def set_s_def xi_interp0_def
      geom3 set_xi_def sample_def column_def Let_def compute_xi_def kirkby2013_compute_def
      rescaled_sranges_def rs_drag_ratio_xi_def select_def model_def upt_rec dot_row_def sum5
      ext0_def kirkby_built_def count_true_def fits_def bview_def stretch_def)

lemma kirkby_call_example: "call_xi ext0 kirkby_built xi_interp0 None = Inr kirkby_called"
  by (simp add: call_xi_def kirkby_built_def kirkby_called_def new_filter_xi_def xi_interp0_def
      set_xi_def sample_def column_def Let_def compute_xi_def kirkby2013_compute_def
      rescaled_sranges_def rs_drag_ratio_xi_def select_def model_def upt_rec dot_row_def sum5
      ext0_def count_true_def fits_def bview_def stretch_def)

text \<open>
  C8. For every class and every interpolator, 1-d or 2-d, the smooth array has the shape of
  the raw array after construction and after each re-invocation; the grid after
  construction is the one \<^verbatim>\<open>set_k\<close> (\<^verbatim>\<open>set_s\<close>) built, and re-invocation leaves it as
  it is. The external routines are taken to return arrays of the shapes their libraries
  document.
\<close>

theorem shapes_preserved:
  assumes "shape_contracts ext"
  shows "(init ext c interp kw = Inr st \<longrightarrow>
            shape (pknow st) = shape (pk st)
          \<and> np_geomspace (extrap_kmin interp) (extrap_kmax interp)
               (case kw_nk kw of None \<Rightarrow> 1024 | Some n \<Rightarrow> n) = Inr (k st))
       \<and> (call ext st0 interp' co = Inr st' \<longrightarrow> shape (pknow st') = shape (pk st') \<and> k st' = k st0)
       \<and> (init_xi ext cx interp kx = Inr sx \<longrightarrow>
            shape (xinow sx) = shape (xi sx)
          \<and> np_geomspace (extrap_kmin interp) (extrap_kmax interp)
               (case kx_ns kx of None \<Rightarrow> 1024 | Some n \<Rightarrow> n) = Inr (s sx))
       \<and> (call_xi ext sx0 interp' co = Inr sx' \<longrightarrow> shape (xinow sx') = shape (xi sx') \<and> s sx' = s sx0)"
proof (intro conjI impI)
  assume a: "init ext c interp kw = Inr st"
  from init_shape[OF assms a] show "shape (pknow st) = shape (pk st)" by auto
  from init_shape[OF assms a] show "np_geomspace (extrap_kmin interp) (extrap_kmax interp)
               (case kw_nk kw of None \<Rightarrow> 1024 | Some n \<Rightarrow> n) = Inr (k st)" by auto
next
  assume a: "call ext st0 interp' co = Inr st'"
  from call_shape[OF assms a] show "shape (pknow st') = shape (pk st')" "k st' = k st0" by auto
next
  assume a: "init_xi ext cx interp kx = Inr sx"
  from init_xi_shape[OF a] show "shape (xinow sx) = shape (xi sx)" by auto
  from init_xi_shape[OF a] show "np_geomspace (extrap_kmin interp) (extrap_kmax interp)
               (case kx_ns kx of None \<Rightarrow> 1024 | Some n \<Rightarrow> n) = Inr (s sx)" by auto
next
  assume a: "call_xi ext sx0 interp' co = Inr sx'"
  from call_xi_shape[OF a] show "shape (xinow sx') = shape (xi sx')" "s sx' = s sx0" by auto
qed

theorem shapes_preserved_witness:
  "shape_contracts ext0
   \<and> init ext0 Hinton2017 interp0 kwargs2 = Inr hinton_built
   \<and> shape (pknow hinton_built) = shape (pk hinton_built) \<and> k hinton_built = [1, 4]
   \<and> call ext0 hinton_built interp0 None = Inr hinton_called
   \<and> shape (pknow hinton_called) = shape (pk hinton_called) \<and> k hinton_called = k hinton_built
   \<and> init_xi ext0 Kirkby2013 xi_interp0 kwargs_xi3 = Inr kirkby_built
   \<and> shape (xinow kirkby_built) = shape (xi kirkby_built) \<and> s kirkby_built = [60, 120, 240]
   \<and> call_xi ext0 kirkby_built xi_interp0 None = Inr kirkby_called
   \<and> shape (xinow kirkby_called) = shape (xi kirkby_called) \<and> s kirkby_called = s kirkby_built"
proof -
  note t = shapes_preserved[OF shape_contracts_ext0,
      of Hinton2017 interp0 kwargs2 hinton_built hinton_built interp0 None hinton_called]
  note u = shapes_preserved[OF shape_contracts_ext0,
      of _ xi_interp0 _ _ _ _ _ _ Kirkby2013 kwargs_xi3 kirkby_built kirkby_built kirkby_called]
  have "k hinton_built = [1, 4]" "s kirkby_built = [60, 120, 240]"
    by (simp_all add: hinton_built_def kirkby_built_def new_filter_def new_filter_xi_def)
  then show ?thesis
    using t u shape_contracts_ext0 hinton_example hinton_call_example kirkby_example
      kirkby_call_example
    by simp
qed

text \<open>
  C10. Given a 1-d interpolator, construction leaves column arrays of shape \<open>(n, 1)\<close> in
  \<^verbatim>\<open>pk\<close> and \<^verbatim>\<open>pknow\<close> (\<^verbatim>\<open>xi\<close> and \<^verbatim>\<open>xinow\<close>), whereas \<^verbatim>\<open>__call__\<close> leaves 1-d
  arrays of shape \<open>(n,)\<close>, where \<open>n\<close> is the length of the grid; \<^verbatim>\<open>wiggles\<close> has the
  shape of the two arrays in each case.
\<close>

theorem shapes_of_1d_inputs:
  assumes "shape_contracts ext"
  shows "(init ext c (Interpolator1D lo hi f) kw = Inr st \<longrightarrow>
            shape (pk st) = [length (k st), 1] \<and> shape (pknow st) = [length (k st), 1]
          \<and> (\<exists>w. wiggles st = Inr (w, st) \<and> shape w = [length (k st), 1]))
       \<and> (call ext st0 (Interpolator1D lo hi f) co = Inr st' \<longrightarrow>
            shape (pk st') = [length (k st0)] \<and> shape (pknow st') = [length (k st0)]
          \<and> (\<exists>w. wiggles st' = Inr (w, st') \<and> shape w = [length (k st0)]))
       \<and> (init_xi ext cx (Interpolator1D lo hi f) kx = Inr sx \<longrightarrow>
            shape (xi sx) = [length (s sx), 1] \<and> shape (xinow sx) = [length (s sx), 1])
       \<and> (call_xi ext sx0 (Interpolator1D lo hi f) co = Inr sx' \<longrightarrow>
            shape (xi sx') = [length (s sx0)] \<and> shape (xinow sx') = [length (s sx0)])"
proof (intro conjI impI)
  assume a: "init ext c (Interpolator1D lo hi f) kw = Inr st"
  from init_shape[OF assms a] show pk: "shape (pk st) = [length (k st), 1]"
    and now: "shape (pknow st) = [length (k st), 1]" by auto
  from wiggles_shape[of st] pk now
  show "\<exists>w. wiggles st = Inr (w, st) \<and> shape w = [length (k st), 1]" by simp
next
  assume a: "call ext st0 (Interpolator1D lo hi f) co = Inr st'"
  from call_shape[OF assms a] show pk: "shape (pk st') = [length (k st0)]"
    and now: "shape (pknow st') = [length (k st0)]" by auto
  from wiggles_shape[of st'] pk now
  show "\<exists>w. wiggles st' = Inr (w, st') \<and> shape w = [length (k st0)]" by simp
next
  assume a: "init_xi ext cx (Interpolator1D lo hi f) kx = Inr sx"
  from init_xi_shape[OF a] show "shape (xi sx) = [length (s sx), 1]"
    "shape (xinow sx) = [length (s sx), 1]" by auto
next
  assume a: "call_xi ext sx0 (Interpolator1D lo hi f) co = Inr sx'"
  from call_xi_shape[OF a] show "shape (xi sx') = [length (s sx0)]"
    "shape (xinow sx') = [length (s sx0)]" by auto
qed


theorem shapes_of_1d_inputs_witness:
  "shape_contracts ext0
   \<and> init ext0 Hinton2017 (Interpolator1D 1 4 (\<lambda>x. 2)) kwargs2 = Inr hinton_built
   \<and> shape (pk hinton_built) = [2, 1] \<and> shape (pknow hinton_built) = [2, 1]
   \<and> call ext0 hinton_built (Interpolator1D 1 4 (\<lambda>x. 2)) None = Inr hinton_called
   \<and> shape (pk hinton_called) = [2] \<and> shape (pknow hinton_called) = [2]
   \<and> init_xi ext0 Kirkby2013 (Interpolator1D 60 240 (\<lambda>x. x)) kwargs_xi3 = Inr kirkby_built
   \<and> shape (xi kirkby_built) = [3, 1] \<and> shape (xinow kirkby_built) = [3, 1]
   \<and> call_xi ext0 kirkby_built (Interpolator1D 60 240 (\<lambda>x. x)) None = Inr kirkby_called
   \<and> shape (xi kirkby_called) = [3] \<and> shape (xinow kirkby_called) = [3]"
proof -
  note t = shapes_of_1d_inputs[OF shape_contracts_ext0,
      of Hinton2017 1 4 "\<lambda>x. 2" kwargs2 hinton_built hinton_built None hinton_called]
  note u = shapes_of_1d_inputs[OF shape_contracts_ext0,
      of _ 60 240 "\<lambda>x. x" _ _ _ None _ Kirkby2013 kwargs_xi3 kirkby_built kirkby_built
        kirkby_called]
  have "length (k hinton_built) = 2" "length (s kirkby_built) = 3"
    by (simp_all add: hinton_built_def kirkby_built_def new_filter_def new_filter_xi_def)
  then show ?thesis
    using t u shape_contracts_ext0 hinton_example hinton_call_example kirkby_example
      kirkby_call_example
    by (simp add: interp0_def xi_interp0_def)
qed

section \<open>Entries of the smooth arrays\<close>

lemma count_true_Cons [simp]:
  "count_true (b # m) = (if b then Suc (count_true m) else count_true m)"
  by (simp add: count_true_def)

lemma count_true_Nil [simp]: "count_true [] = 0"
  by (simp add: count_true_def)

lemma select_Cons [simp]:
  "select (b # m) (x # xs) = (if b then x # select m xs else select m xs)"
  by (simp add: select_def)

lemma select_Nil [simp]: "select [] xs = []" "select m [] = []"
  by (simp_all add: select_def)

lemma count_true_take_less:
  "i < length m \<Longrightarrow> m ! i \<Longrightarrow> count_true (take i m) < count_true m"
proof (induction m arbitrary: i)
  case Nil
  then show ?case by simp
next
  case (Cons b m)
  then show ?case by (cases i) auto
qed

lemma select_nth:
  "length m = length xs \<Longrightarrow> i < length xs \<Longrightarrow> m ! i \<Longrightarrow>
   select m xs ! count_true (take i m) = xs ! i"
proof (induction m arbitrary: xs i)
  case Nil
  then show ?case by simp
next
  case (Cons b m)
  then obtain x xs' where xs: "xs = x # xs'" by (cases xs) auto
  show ?case
  proof (cases i)
    case 0
    with Cons xs show ?thesis by simp
  next
    case (Suc j)
    with Cons xs show ?thesis by auto
  qed
qed

lemma scatter_nth:
  "length m = length xs \<Longrightarrow> length vs = count_true m \<Longrightarrow> i < length xs \<Longrightarrow>
   scatter m xs vs ! i = (if m ! i then vs ! count_true (take i m) else xs ! i)"
  by (induction m xs vs arbitrary: i rule: scatter.induct) (auto simp: nth_Cons split: nat.splits)

lemma select_map: "select (map P xs) xs = filter P xs"
  by (induction xs) auto

lemma sample_single:
  assumes "sample two zsrc interp xs = Inr (A2 c V)" "j < length xs"
  shows "sample two zsrc interp [xs ! j] = Inr (A2 c [V ! j])"
  using assms
  by (cases interp; cases zsrc; cases two) (auto simp: sample_def column_def)

lemma sample_wf:
  assumes "sample two zsrc interp xs = Inr a"
  shows "wf a"
  using assms
  by (cases interp; cases zsrc; cases two) (auto simp: sample_def column_def list_all_iff)

lemma setitem_mask_rows:
  assumes "setitem_mask m v (A2 c X) = Inr b" "wf v" "vshape v = (count_true m, c)"
  shows "\<exists>Y. b = A2 c Y \<and> length Y = length X
    \<and> (\<forall>i < length X. Y ! i = (if m ! i then vrows v ! count_true (take i m) else X ! i))"
proof -
  from assms(1) have len: "length m = length X"
    and b: "b = A2 c (scatter m X (bview (count_true m) c v))"
    by (auto split: if_splits)
  have bv: "bview (count_true m) c v = vrows v"
    using assms(2,3) by (rule bview_same)
  have lv: "length (vrows v) = count_true m"
    using assms(3) by (cases v) auto
  show ?thesis
    using scatter_nth[OF len lv] by (auto simp: b bv)
qed

lemma setitem_mask_unselected:
  assumes "setitem_mask m v (A2 c X) = Inr b"
  shows "\<exists>Y. b = A2 c Y \<and> length Y = length X \<and> (\<forall>i < length X. \<not> m ! i \<longrightarrow> Y ! i = X ! i)"
proof -
  from assms(1) have len: "length m = length X"
    and b: "b = A2 c (scatter m X (bview (count_true m) c v))"
    by (auto split: if_splits)
  have "length (bview (count_true m) c v) = count_true m" by simp
  from scatter_nth[OF len this] show ?thesis by (auto simp: b)
qed

lemma brieden2022_prepare_frame:
  assumes "brieden2022_prepare ext self = Inr st"
  shows "kmask_fid st = map (\<lambda>x. 1 / 1000 \<le> x \<and> x \<le> 1) (k self)
    \<and> k_fid st = select (kmask_fid st) (k self)"
  using assms
  by (auto simp: brieden2022_prepare_def Let_def rbind_eq_Inr cosmo_fid_def split: option.splits)

lemma sample_cols:
  assumes "sample two zsrc i1 xs = Inr (A2 c V)" "sample two zsrc i2 ys = Inr (A2 c' V')"
  shows "c' = c"
  using assms
  by (cases i1; cases i2; cases zsrc; cases two) (auto simp: sample_def column_def)

lemma set_pk_sample:
  assumes "set_pk interp co self = Inr st"
  shows "sample (is2d st) (pk_interpolator st) (pk_interpolator st) (k st) = Inr (pk st)"
  using assms by (auto simp: set_pk_def Let_def rbind_eq_Inr)

lemma cosmo_frame2:
  "pknow_correction (snd (cosmo self)) = pknow_correction self"
  "ratio_fid (snd (cosmo self)) = ratio_fid self"
  "ik_fid_peaks (snd (cosmo self)) = ik_fid_peaks self"
  "ratio_now_fid (snd (cosmo self)) = ratio_now_fid self"
  "u_cosmo_fid (snd (cosmo self)) = u_cosmo_fid self"
  by (auto simp: cosmo_def split: option.splits)

lemma cosmo_restore:
  "(snd (cosmo self))\<lparr>pknow := b, u_cosmo := u_cosmo self\<rparr> = self\<lparr>pknow := b\<rparr>"
  by (auto simp: cosmo_def split: option.splits)

lemma cosmo_fst_cong: "u_cosmo a = u_cosmo b \<Longrightarrow> fst (cosmo a) = fst (cosmo b)"
  by (auto simp: cosmo_def split: option.splits)

lemma rs_drag_ratio_pknow_gen:
  "rs_drag_ratio (self\<lparr>pknow := b\<rparr>)
     = (case rs_drag_ratio self of Inl e \<Rightarrow> Inl e | Inr (r, t) \<Rightarrow> Inr (r, t\<lparr>pknow := b\<rparr>))"
  by (cases "u_cosmo self"; cases "u_cosmo_fid self")
    (simp_all add: rs_drag_ratio_def cosmo_def cosmo_fid_def rbind_def split: sum.splits)

lemma rs_drag_ratio_pknow:
  assumes "rs_drag_ratio self = Inr (r, self)"
  shows "rs_drag_ratio (self\<lparr>pknow := b\<rparr>) = Inr (r, self\<lparr>pknow := b\<rparr>)"
  by (simp add: rs_drag_ratio_pknow_gen assms)

lemma brieden2022_compute_window:
  assumes "brieden2022_compute ext self = Inr st"
    and "sample (is2d self) (pk_interpolator self) (pk_interpolator self) (k self) = Inr (A2 c X)"
    and "pk self = A2 c X"
    and "kmask_fid self = map (\<lambda>x. 1 / 1000 \<le> x \<and> x \<le> 1) (k self)"
    and "k_fid self = select (kmask_fid self) (k self)"
  shows "\<exists>Y rescale pks f now r1 ratio avg p1 smooth interp'.
      st = (snd (cosmo self))\<lparr>pknow := A2 c Y\<rparr> \<and> length Y = length X
    \<and> rs_drag_ratio self = Inr (rescale, self)
    \<and> sample (is2d self) (pk_interpolator self) (pk_interpolator self)
        (map (\<lambda>x. x / rescale) (k_fid self)) = Inr pks
    \<and> eh_nowiggle ext (fst (cosmo self)) = Inr f
    \<and> imul (column (map (\<lambda>x. f (x * rescale)) (k_fid self))) (pknow_correction self) = Inr now
    \<and> np_divide pks now = Inr r1
    \<and> np_divide r1 (ratio_fid self) = Inr ratio
    \<and> brieden_interp ext (ik_fid_peaks self) (k_fid self) ratio = Inr avg
    \<and> np_multiply avg now = Inr p1
    \<and> np_multiply p1 (ratio_now_fid self) = Inr smooth
    \<and> clone ext (pk_interpolator self) (map (\<lambda>x. x / rescale) (k_fid self)) smooth = Inr interp'
    \<and> (\<forall>i < length X.
          if 1 / 1000 \<le> k self ! i \<and> k self ! i \<le> 1
          then sample (is2d self) (pk_interpolator self) interp' [k self ! i] = Inr (A2 c [Y ! i])
          else Y ! i = X ! i)"
proof -
  define goal where "goal \<longleftrightarrow> (\<exists>Y rescale pks f now r1 ratio avg p1 smooth interp'.
      st = (snd (cosmo self))\<lparr>pknow := A2 c Y\<rparr> \<and> length Y = length X
    \<and> rs_drag_ratio self = Inr (rescale, self)
    \<and> sample (is2d self) (pk_interpolator self) (pk_interpolator self)
        (map (\<lambda>x. x / rescale) (k_fid self)) = Inr pks
    \<and> eh_nowiggle ext (fst (cosmo self)) = Inr f
    \<and> imul (column (map (\<lambda>x. f (x * rescale)) (k_fid self))) (pknow_correction self) = Inr now
    \<and> np_divide pks now = Inr r1
    \<and> np_divide r1 (ratio_fid self) = Inr ratio
    \<and> brieden_interp ext (ik_fid_peaks self) (k_fid self) ratio = Inr avg
    \<and> np_multiply avg now = Inr p1
    \<and> np_multiply p1 (ratio_now_fid self) = Inr smooth
    \<and> clone ext (pk_interpolator self) (map (\<lambda>x. x / rescale) (k_fid self)) smooth = Inr interp'
    \<and> (\<forall>i < length X.
          if 1 / 1000 \<le> k self ! i \<and> k self ! i \<le> 1
          then sample (is2d self) (pk_interpolator self) interp' [k self ! i] = Inr (A2 c [Y ! i])
          else Y ! i = X ! i))"
  have goal
  using assms(1)
  apply (simp add: brieden2022_compute_def Let_def rbind_eq_Inr case_prod_beta)
  apply (elim exE conjE)
  subgoal premises p for r s0 pks f now r1 ratio avg p1 smooth interp v b
  proof -
    have s0: "s0 = self" using p(1) by (rule rs_drag_ratio_state)
    note fr = cosmo_frame[OF surjective_pairing, of self]
    note fr2 = cosmo_frame2[of self]
    let ?m = "kmask_fid self"
    have lX: "length X = length (k self)"
      using sample_A2[OF assms(2)] by simp
    have c1: "rs_drag_ratio self = Inr (r, self)" using p(1) by (simp add: s0)
    have c2: "sample (is2d self) (pk_interpolator self) (pk_interpolator self)
        (map (\<lambda>x. x / r) (k_fid self)) = Inr pks"
      using p(2) by (simp add: s0)
    have c3: "eh_nowiggle ext (fst (cosmo self)) = Inr f" using p(3) by (simp add: s0)
    have c4: "imul (column (map (\<lambda>x. f (x * r)) (k_fid self))) (pknow_correction self) = Inr now"
      using p(4) fr fr2 by (simp add: s0)
    have c5: "np_divide pks now = Inr r1" by (rule p(5))
    have c6: "np_divide r1 (ratio_fid self) = Inr ratio" using p(6) fr2 by (simp add: s0)
    have c7: "brieden_interp ext (ik_fid_peaks self) (k_fid self) ratio = Inr avg"
      using p(7) fr fr2 by (simp add: s0)
    have c8: "np_multiply avg now = Inr p1" by (rule p(8))
    have c9: "np_multiply p1 (ratio_now_fid self) = Inr smooth" using p(9) fr2 by (simp add: s0)
    have cl: "clone ext (pk_interpolator self) (map (\<lambda>x. x / r) (k_fid self)) smooth = Inr interp"
      using p(10) fr by (simp add: s0)
    have sm: "sample (is2d self) (pk_interpolator self) interp (k_fid self) = Inr v"
      using p(11) fr by (simp add: s0)
    have set: "setitem_mask ?m v (A2 c X) = Inr b"
      using p(12) fr assms(3) by (simp add: s0)
    have lm: "length ?m = length X" using lX assms(4) by simp
    from sample_A2[OF sm] obtain c' V where v: "v = A2 c' V" "length V = length (k_fid self)"
      by blast
    have c': "c' = c"
      using sample_cols[OF assms(2) sm[unfolded v]] .
    have lk: "length (k_fid self) = count_true ?m"
      using assms(5) lm lX by (simp add: length_select)
    have wfv: "wf v" using sm by (rule sample_wf)
    have vs: "vshape v = (count_true ?m, c)" using v c' lk by simp
    from setitem_mask_rows[OF set wfv vs] obtain Y where
      Y: "b = A2 c Y" "length Y = length X"
        "\<forall>i<length X. Y ! i = (if ?m ! i then vrows v ! count_true (take i ?m) else X ! i)"
      by blast
    have main: "\<forall>i < length X.
          if 1 / 1000 \<le> k self ! i \<and> k self ! i \<le> 1
          then sample (is2d self) (pk_interpolator self) interp [k self ! i] = Inr (A2 c [Y ! i])
          else Y ! i = X ! i"
    proof (intro allI impI)
      fix i assume i: "i < length X"
      have mi: "?m ! i = (1 / 1000 \<le> k self ! i \<and> k self ! i \<le> 1)"
        using i lX assms(4) by simp
      show "if 1 / 1000 \<le> k self ! i \<and> k self ! i \<le> 1
          then sample (is2d self) (pk_interpolator self) interp [k self ! i] = Inr (A2 c [Y ! i])
          else Y ! i = X ! i"
      proof (cases "?m ! i")
        case True
        let ?j = "count_true (take i ?m)"
        have j: "?j < length (k_fid self)"
          using count_true_take_less[of i ?m] True i lm lk by simp
        have kj: "k_fid self ! ?j = k self ! i"
          using select_nth[of ?m "k self" i] True i lm lX assms(5) by simp
        have "Y ! i = V ! ?j" using Y(3) i True v by simp
        with sample_single[OF sm[unfolded v c'] j] kj True mi show ?thesis by simp
      next
        case False
        with Y(3) i mi show ?thesis by auto
      qed
    qed
    have pkn: "st = (snd (cosmo self))\<lparr>pknow := A2 c Y\<rparr>" using p(13) Y(1) by (simp add: s0)
    show ?thesis
      unfolding goal_def
      apply (rule exI[of _ Y], rule exI[of _ r], rule exI[of _ pks], rule exI[of _ f],
          rule exI[of _ now], rule exI[of _ r1], rule exI[of _ ratio], rule exI[of _ avg],
          rule exI[of _ p1], rule exI[of _ smooth], rule exI[of _ interp])
      apply (intro conjI)
                  apply (rule pkn)
                 apply (rule Y(2))
                apply (rule c1)
               apply (rule c2)
              apply (rule c3)
             apply (rule c4)
            apply (rule c5)
           apply (rule c6)
          apply (rule c7)
         apply (rule c8)
        apply (rule c9)
       apply (rule cl)
      apply (rule main)
      done
  qed
  done
  then show ?thesis unfolding goal_def .
qed

lemma brieden2022_prepare_frame2:
  assumes "brieden2022_prepare ext self = Inr st"
  shows "pk st = pk self \<and> k st = k self \<and> is2d st = is2d self
    \<and> pk_interpolator st = pk_interpolator self"
  using assms
  by (auto simp: brieden2022_prepare_def Let_def rbind_eq_Inr cosmo_fid_def split: option.splits)

lemma brieden2022_prepare_fit_state:
  assumes "brieden2022_prepare ext self = Inr st"
  shows "u_cosmo st = u_cosmo self \<and> u_cosmo_fid st = Some (fst (cosmo_fid self))
    \<and> brieden_prepare_fit ext (fst (cosmo_fid self)) (k_fid st)
        = Inr (pknow_correction st, ratio_fid st, ik_fid_peaks st, ratio_now_fid st)"
  using assms
  by (auto simp: brieden2022_prepare_def Let_def rbind_eq_Inr cosmo_fid_def split: option.splits)

lemma cosmo_fid_fst: "fst (cosmo_fid self) = (case u_cosmo_fid self of None \<Rightarrow> Cosmology | Some c \<Rightarrow> c)"
  by (simp add: cosmo_fid_def split: option.splits)

lemma set_k_cosmo_fid: "set_k nk self = Inr st \<Longrightarrow> u_cosmo_fid st = u_cosmo_fid self"
  by (auto simp: set_k_def rbind_eq_Inr)

lemma set_pk_cosmo_fid: "set_pk interp co self = Inr st \<Longrightarrow> u_cosmo_fid st = u_cosmo_fid self"
  by (auto simp: set_pk_def Let_def rbind_eq_Inr)

lemma set_pk_interp:
  "set_pk interp co self = Inr st \<Longrightarrow> pk_interpolator st = interp"
  by (auto simp: set_pk_def Let_def rbind_eq_Inr)

text \<open>
  C6. After the construction of a Brieden2022 filter, the smooth array equals the raw
  array in every row whose wavenumber lies outside \<open>[1e-3, 1]\<close>; a row whose wavenumber
  lies inside is the value, at that wavenumber, of the interpolator cloned from the
  peak-average smooth values. These values are the ones of \<^verbatim>\<open>_compute\<close>: with \<open>rescale\<close>
  the ratio of sound horizons of the filter as constructed, the interpolator sampled at
  the window's wavenumbers divided by \<open>rescale\<close> is divided by the corrected
  Eisenstein-Hu no-wiggle spectrum at the wavenumbers multiplied by \<open>rescale\<close> and by the
  fiducial ratio, averaged through the fiducial peaks, and multiplied back by the no-wiggle
  spectrum and by the fiducial peak average; the fiducial quantities are those that
  \<^verbatim>\<open>_prepare\<close> fitted on the window with the fiducial cosmology. The quotients are
  those of \<open>np_divide\<close>, which are numpy's wherever the divisor is not zero.
\<close>

theorem brieden2022_window:
  assumes "init ext Brieden2022 interp kw = Inr st"
  shows "\<exists>c X Y pre fid rescale pks f now r1 ratio avg p1 smooth interp'.
      pk st = A2 c X \<and> pknow st = A2 c Y \<and> length X = length (k st) \<and> length Y = length (k st)
    \<and> k_fid st = filter (\<lambda>x. 1 / 1000 \<le> x \<and> x \<le> 1) (k st)
    \<and> fid = fst (cosmo_fid (st\<lparr>u_cosmo_fid := kw_cosmo_fid kw\<rparr>))
    \<and> brieden_prepare_fit ext fid (k_fid st)
        = Inr (pknow_correction st, ratio_fid st, ik_fid_peaks st, ratio_now_fid st)
    \<and> pre = st\<lparr>u_cosmo := kw_cosmo kw\<rparr>
    \<and> rs_drag_ratio pre = Inr (rescale, pre)
    \<and> sample (is2d st) interp interp (map (\<lambda>x. x / rescale) (k_fid st)) = Inr pks
    \<and> eh_nowiggle ext (fst (cosmo pre)) = Inr f
    \<and> imul (column (map (\<lambda>x. f (x * rescale)) (k_fid st))) (pknow_correction st) = Inr now
    \<and> np_divide pks now = Inr r1
    \<and> np_divide r1 (ratio_fid st) = Inr ratio
    \<and> brieden_interp ext (ik_fid_peaks st) (k_fid st) ratio = Inr avg
    \<and> np_multiply avg now = Inr p1
    \<and> np_multiply p1 (ratio_now_fid st) = Inr smooth
    \<and> clone ext interp (map (\<lambda>x. x / rescale) (k_fid st)) smooth = Inr interp'
    \<and> (\<forall>i < length (k st).
          if 1 / 1000 \<le> k st ! i \<and> k st ! i \<le> 1
          then sample (is2d st) interp interp' [k st ! i] = Inr (A2 c [Y ! i])
          else Y ! i = X ! i)"
proof -
  let ?P = "\<lambda>x::real. 1 / 1000 \<le> x \<and> x \<le> 1"
  from assms obtain s1 s2 s3 where
    steps: "set_k (case kw_nk kw of None \<Rightarrow> 1024 | Some n \<Rightarrow> n)
              ((subclass_init Brieden2022 kw)\<lparr>u_cosmo_fid := kw_cosmo_fid kw, pk_interpolator := interp\<rparr>) = Inr s1"
      "set_pk interp (kw_cosmo kw) s1 = Inr s2" "prepare ext s2 = Inr s3" "compute ext s3 = Inr st"
    unfolding init_def by (rule base_init_steps)
  have c2: "cls s2 = Brieden2022"
    using set_k_cls[OF steps(1)] set_pk_cls[OF steps(2)] by (simp add: cls_subclass_init)
  then have c3: "cls s3 = Brieden2022"
    using prepare_cls[OF steps(3)] by simp
  have prep: "brieden2022_prepare ext s2 = Inr s3"
    using steps(3) c2 by (simp add: prepare_def)
  have comp: "brieden2022_compute ext s3 = Inr st"
    using steps(4) c3 by (simp add: compute_def)
  note f2 = brieden2022_prepare_frame2[OF prep]
  note m3 = brieden2022_prepare_frame[OF prep]
  note p3 = brieden2022_prepare_fit_state[OF prep]
  have i3: "pk_interpolator s3 = interp"
    using f2 set_pk_interp[OF steps(2)] by simp
  have u3: "u_cosmo s3 = kw_cosmo kw"
    using p3 set_pk_cosmo[OF steps(2)] by simp
  have fid2: "u_cosmo_fid s2 = kw_cosmo_fid kw"
    using set_k_cosmo_fid[OF steps(1)] set_pk_cosmo_fid[OF steps(2)] by simp
  from set_pk_sample[OF steps(2)] have
    sm: "sample (is2d s3) (pk_interpolator s3) (pk_interpolator s3) (k s3) = Inr (pk s3)"
    using f2 by simp
  from sample_A2[OF sm] obtain c X where X: "pk s3 = A2 c X" "length X = length (k s3)"
    by blast
  have km: "kmask_fid s3 = map ?P (k s3)" using m3 f2 by simp
  have kf: "k_fid s3 = select (kmask_fid s3) (k s3)" using m3 f2 by simp
  from brieden2022_compute_window[OF comp sm[unfolded X(1)] X(1) km kf]
  obtain Y rescale pks f now r1 ratio avg p1 smooth interp' where
    Y: "st = (snd (cosmo s3))\<lparr>pknow := A2 c Y\<rparr>" "length Y = length X"
      "rs_drag_ratio s3 = Inr (rescale, s3)"
      "sample (is2d s3) (pk_interpolator s3) (pk_interpolator s3)
          (map (\<lambda>x. x / rescale) (k_fid s3)) = Inr pks"
      "eh_nowiggle ext (fst (cosmo s3)) = Inr f"
      "imul (column (map (\<lambda>x. f (x * rescale)) (k_fid s3))) (pknow_correction s3) = Inr now"
      "np_divide pks now = Inr r1"
      "np_divide r1 (ratio_fid s3) = Inr ratio"
      "brieden_interp ext (ik_fid_peaks s3) (k_fid s3) ratio = Inr avg"
      "np_multiply avg now = Inr p1"
      "np_multiply p1 (ratio_now_fid s3) = Inr smooth"
      "clone ext (pk_interpolator s3) (map (\<lambda>x. x / rescale) (k_fid s3)) smooth = Inr interp'"
      "\<forall>i < length X.
          if ?P (k s3 ! i)
          then sample (is2d s3) (pk_interpolator s3) interp' [k s3 ! i] = Inr (A2 c [Y ! i])
          else Y ! i = X ! i"
    by (elim exE conjE) (rule that)
  note fr = cosmo_frame[OF surjective_pairing, of s3]
  note fr2 = cosmo_frame2[of s3]
  have frk: "k s3 = k st" and fri: "is2d s3 = is2d st" and frp: "pk st = A2 c X"
    and frf: "k_fid s3 = k_fid st" and frc: "pknow_correction s3 = pknow_correction st"
    and frr: "ratio_fid s3 = ratio_fid st" and fri2: "ik_fid_peaks s3 = ik_fid_peaks st"
    and frn: "ratio_now_fid s3 = ratio_now_fid st" and pkn: "pknow st = A2 c Y"
    and frd: "u_cosmo_fid st = u_cosmo_fid s3"
    using fr fr2 X(1) by (simp_all add: Y(1))
  have kfil: "k_fid st = filter ?P (k st)"
    using kf km frk frf by (simp add: select_map)
  define pre where "pre = st\<lparr>u_cosmo := kw_cosmo kw\<rparr>"
  have pre: "pre = s3\<lparr>pknow := A2 c Y\<rparr>"
    unfolding pre_def Y(1) u3[symmetric] by (simp add: cosmo_restore)
  have rs: "rs_drag_ratio pre = Inr (rescale, pre)"
    unfolding pre by (rule rs_drag_ratio_pknow[OF Y(3)])
  have cf: "fst (cosmo pre) = fst (cosmo s3)"
    by (rule cosmo_fst_cong) (simp add: pre)
  define fid where "fid = fst (cosmo_fid (st\<lparr>u_cosmo_fid := kw_cosmo_fid kw\<rparr>))"
  have fid: "fid = fst (cosmo_fid s2)"
    by (simp add: fid_def cosmo_fid_fst fid2)
  have fit: "brieden_prepare_fit ext fid (k_fid st)
        = Inr (pknow_correction st, ratio_fid st, ik_fid_peaks st, ratio_now_fid st)"
    using p3 by (simp add: fid frf[symmetric] frc[symmetric] frr[symmetric] fri2[symmetric]
        frn[symmetric])
  show ?thesis
    apply (rule exI[of _ c], rule exI[of _ X], rule exI[of _ Y], rule exI[of _ pre],
        rule exI[of _ fid], rule exI[of _ rescale], rule exI[of _ pks], rule exI[of _ f],
        rule exI[of _ now], rule exI[of _ r1], rule exI[of _ ratio], rule exI[of _ avg],
        rule exI[of _ p1], rule exI[of _ smooth], rule exI[of _ interp'])
    apply (intro conjI)
                      apply (rule frp)
                      apply (rule pkn)
                      apply (rule X(2)[unfolded frk])
                      apply (rule Y(2)[unfolded X(2) frk])
                      apply (rule kfil)
                      apply (rule fid_def)
                      apply (rule fit)
                      apply (rule pre_def)
                      apply (rule rs)
                     apply (rule Y(4)[unfolded i3 frf fri])
                    apply (rule Y(5)[folded cf])
                   apply (rule Y(6)[unfolded frf frc])
                  apply (rule Y(7))
                 apply (rule Y(8)[unfolded frr])
                apply (rule Y(9)[unfolded frf fri2])
               apply (rule Y(10))
              apply (rule Y(11)[unfolded frn])
             apply (rule Y(12)[unfolded i3 frf])
    apply (rule Y(13)[unfolded i3 X(2) frk fri])
    done
qed

theorem brieden2022_window_witness:
  "init ext0 Brieden2022 brieden_interp0 brieden_kwargs = Inr brieden_built
   \<and> k brieden_built = [1 / 2, 2] \<and> pk brieden_built = A2 1 [[3], [3]]
   \<and> pknow brieden_built = A2 1 [[5], [3]]
   \<and> (\<exists>X Y. pk brieden_built = A2 1 X \<and> pknow brieden_built = A2 1 Y \<and> Y ! 1 = X ! 1)"
proof -
  have ex: "init ext0 Brieden2022 brieden_interp0 brieden_kwargs = Inr brieden_built"
    by (simp add: init_def subclass_init_def rejected_kwargs_def base_init_def brieden_kwargs_def
      no_kwargs_def the_default_def new_filter_def set_k_def brieden_interp0_def np_geomspace_def
      upt_rec set_pk_def sample_def column_def Let_def prepare_def compute_def
      brieden2022_prepare_def brieden2022_compute_def cosmo_fid_def cosmo_def
      get_cosmology_engine_def fid0_def rs_drag_ratio_def imul_def np_multiply_def np_divide_def
      np_binop_def bdim_def unview_def
      ext0_def brieden_built_def fits_def bview_def stretch_def)
  have v: "k brieden_built = [1 / 2, 2]" "pk brieden_built = A2 1 [[3], [3]]"
    "pknow brieden_built = A2 1 [[5], [3]]"
    by (simp_all add: brieden_built_def new_filter_def)
  have "\<exists>X Y. pk brieden_built = A2 1 X \<and> pknow brieden_built = A2 1 Y \<and> Y ! 1 = X ! 1"
    using brieden2022_window[OF ex]
    apply (elim exE conjE)
    subgoal premises q for c X Y pre fid rescale pks f now r1 ratio avg p1 smooth interp'
    proof -
      have c: "c = 1" using q(1) v(2) by simp
      have "Y ! 1 = X ! 1" using q(19)[rule_format, of 1] v(1) by simp
      then show ?thesis using q(1,2) c by auto
    qed
    done
  with v ex show ?thesis by simp
qed

lemma getitem_mask_A2:
  "getitem_mask m (A2 c X) = Inr a \<Longrightarrow> a = A2 c (select m X) \<and> length m = length X"
  by (auto split: if_splits)

lemma model_rows:
  "t < 5 \<Longrightarrow> j < length xs \<Longrightarrow> vrows (model xs) ! t ! j = xs ! j powi (1 - int t)"
  by (simp add: model_def)

lemma kirkby2013_compute_fill:
  assumes "kirkby2013_compute ext self = Inr st"
    and "rescaled_sranges self = Inr (((50, 82), (150, 190)), self)"
    and "xi self = A2 c X" "length X = length (s self)"
  shows "\<exists>Y P. xinow st = A2 c Y \<and> length Y = length X
    \<and> lss_fit ext
         (model (select (map (\<lambda>x. (50 \<le> x \<and> x \<le> 82) \<or> (150 \<le> x \<and> x \<le> 190)) (s self)) (s self)))
         1
         (np_transpose (A2 c (select (map (\<lambda>x. (50 \<le> x \<and> x \<le> 82) \<or> (150 \<le> x \<and> x \<le> 190)) (s self)) X)))
        = Inr P
    \<and> (\<forall>i < length X. s self ! i \<le> 82 \<or> 150 \<le> s self ! i \<longrightarrow> Y ! i = X ! i)
    \<and> (\<forall>prows. P = A2 5 prows \<and> length prows = c \<and> wf P \<longrightarrow>
          (\<forall>i < length X. 82 < s self ! i \<and> s self ! i < 150 \<longrightarrow>
             (\<forall>j < c. Y ! i ! j = poly_value (prows ! j) (s self ! i))))"
proof -
  let ?fm = "map (\<lambda>x. (50 \<le> x \<and> x \<le> 82) \<or> (150 \<le> x \<and> x \<le> 190)) (s self)"
  let ?gm = "map (\<lambda>x::real. 82 < x \<and> x < 150) (s self)"
  define goal where "goal \<longleftrightarrow> (\<exists>Y P. xinow st = A2 c Y \<and> length Y = length X
    \<and> lss_fit ext (model (select ?fm (s self))) 1 (np_transpose (A2 c (select ?fm X))) = Inr P
    \<and> (\<forall>i < length X. s self ! i \<le> 82 \<or> 150 \<le> s self ! i \<longrightarrow> Y ! i = X ! i)
    \<and> (\<forall>prows. P = A2 5 prows \<and> length prows = c \<and> wf P \<longrightarrow>
          (\<forall>i < length X. 82 < s self ! i \<and> s self ! i < 150 \<longrightarrow>
             (\<forall>j < c. Y ! i ! j = poly_value (prows ! j) (s self ! i)))))"
  have goal
    using assms(1)
    apply (simp only: kirkby2013_compute_def assms(2) rbind_Inr prod.case Let_def)
    apply (simp only: rbind_eq_Inr)
    apply (elim exE conjE)
    subgoal premises p for xim params v b
    proof -
      have xim: "xim = A2 c (select ?fm X)"
        using p(1) assms(3) getitem_mask_A2 by (simp add: )
      have fit: "lss_fit ext (model (select ?fm (s self))) 1 (np_transpose (A2 c (select ?fm X))) = Inr params"
        using p(2) xim by simp
      have dot: "np_dot params (model (select ?gm (s self))) = Inr v"
        using p(3) by simp
      have set: "setitem_mask ?gm (np_transpose v) (A2 c X) = Inr b"
        using p(4) assms(3) by simp
      have st: "xinow st = b" using p(5) by auto
      from setitem_mask_unselected[OF set] obtain Y where
        Y: "b = A2 c Y" "length Y = length X" "\<forall>i<length X. \<not> ?gm ! i \<longrightarrow> Y ! i = X ! i"
        by blast
      have raw: "\<forall>i < length X. s self ! i \<le> 82 \<or> 150 \<le> s self ! i \<longrightarrow> Y ! i = X ! i"
        using Y(3) assms(4) by auto
      have fill: "\<forall>prows. params = A2 5 prows \<and> length prows = c \<and> wf params \<longrightarrow>
          (\<forall>i < length X. 82 < s self ! i \<and> s self ! i < 150 \<longrightarrow>
             (\<forall>j < c. Y ! i ! j = poly_value (prows ! j) (s self ! i)))"
      proof (intro allI impI, elim conjE)
        fix prows i j
        assume P: "params = A2 5 prows" "length prows = c" "wf params"
          and i: "i < length X" "82 < s self ! i" "s self ! i < 150" and j: "j < c"
        let ?sel = "select ?gm (s self)"
        let ?n = "length ?sel"
        let ?M = "vrows (model ?sel)"
        have lg: "length ?gm = length X" using assms(4) by simp
        have n: "?n = count_true ?gm" using assms(4) by (simp add: length_select)
        have v: "v = A2 ?n (map (\<lambda>p. dot_row p ?M ?n) prows)"
          using dot P(1) by (auto simp: model_def split: if_splits)
        let ?tv = "np_transpose v"
        have tv: "?tv = A2 c (map (\<lambda>j. map (\<lambda>r. r ! j) (map (\<lambda>p. dot_row p ?M ?n) prows)) [0..<?n])"
          using v P(2) by simp
        have wft: "wf ?tv" using P(2) by (simp add: tv list_all_iff)
        have vst: "vshape ?tv = (count_true ?gm, c)" using n by (simp add: tv)
        from setitem_mask_rows[OF set wft vst] Y(1) have
          rows: "\<forall>i<length X. Y ! i = (if ?gm ! i then vrows ?tv ! count_true (take i ?gm) else X ! i)"
          by auto
        have gi: "?gm ! i" using i assms(4) by simp
        let ?r = "count_true (take i ?gm)"
        have r: "?r < ?n" using count_true_take_less[of i ?gm] gi i lg n by simp
        have sr: "?sel ! ?r = s self ! i"
          using select_nth[of ?gm "s self" i] gi i lg assms(4) by simp
        have "Y ! i = vrows ?tv ! ?r" using rows i gi by simp
        also have "\<dots> = map (\<lambda>r. r ! ?r) (map (\<lambda>p. dot_row p ?M ?n) prows)"
          using r by (simp add: tv)
        finally have "Y ! i ! j = dot_row (prows ! j) ?M ?n ! ?r"
          using j P(2) by simp
        also have "\<dots> = (\<Sum>t<length (prows ! j). prows ! j ! t * ?M ! t ! ?r)"
          using r by (simp add: dot_row_def)
        also have "\<dots> = (\<Sum>t<length (prows ! j). prows ! j ! t * (s self ! i) powi (1 - int t))"
        proof (rule sum.cong)
          fix t assume "t \<in> {..<length (prows ! j)}"
          moreover have "length (prows ! j) = 5"
            using P(1,3) j P(2) by (simp add: list_all_length)
          ultimately have "t < 5" by simp
          then show "prows ! j ! t * ?M ! t ! ?r = prows ! j ! t * (s self ! i) powi (1 - int t)"
            using model_rows[of t ?r ?sel] r sr by simp
        qed simp
        finally show "Y ! i ! j = poly_value (prows ! j) (s self ! i)"
          by (simp add: poly_value_def)
      qed
      show ?thesis
        unfolding goal_def
        apply (rule exI[of _ Y], rule exI[of _ params])
        apply (intro conjI)
            apply (simp add: st Y(1))
           apply (rule Y(2))
          apply (rule fit)
         apply (rule raw)
        apply (rule fill)
        done
    qed
    done
  then show ?thesis unfolding goal_def .
qed


lemma set_s_frame2:
  "set_s ns self = Inr st \<Longrightarrow> srange_left st = srange_left self \<and> srange_right st = srange_right self
     \<and> rescale_sbox st = rescale_sbox self \<and> cls_xi st = cls_xi self"
  by (auto simp: set_s_def rbind_eq_Inr)

lemma set_xi_frame2:
  "set_xi interp co self = Inr st \<Longrightarrow> srange_left st = srange_left self
     \<and> srange_right st = srange_right self \<and> rescale_sbox st = rescale_sbox self
     \<and> u_cosmo_xi st = co"
  by (auto simp: set_xi_def Let_def rbind_eq_Inr)

lemma rescaled_sranges_unit:
  assumes "u_cosmo_xi self = None"
  shows "rescaled_sranges self = Inr ((srange_left self, srange_right self), self)"
  using assms by (simp add: rescaled_sranges_def rs_drag_ratio_xi_def)

text \<open>
  C2. A Kirkby2013 filter built with the default windows \<open>(50, 82)\<close> and \<open>(150, 190)\<close> and
  without a current cosmology (the ratio of sound horizons is then 1) has \<open>xinow\<close> equal to
  the raw \<open>xi\<close> in every row whose separation is at most 82 or at least 150. The solver
  is called with precision 1 and no constraint on the basis \<open>s^(1-i)\<close>, \<open>i = 0..4\<close>, at
  the grid points of the two windows; where it returns one row of five coefficients for
  each column of \<open>xi\<close>, every entry of a row whose separation lies strictly between 82 and
  150 is the value of the fitted polynomial of its column at that separation.
\<close>

theorem kirkby2013_fill:
  assumes "init_xi ext Kirkby2013 interp kw = Inr st"
    and "kx_srange_left kw = None" "kx_srange_right kw = None" "kx_cosmo kw = None"
  shows "\<exists>c X Y P. xi st = A2 c X \<and> xinow st = A2 c Y
    \<and> length X = length (s st) \<and> length Y = length (s st)
    \<and> lss_fit ext
         (model (select (map (\<lambda>x. (50 \<le> x \<and> x \<le> 82) \<or> (150 \<le> x \<and> x \<le> 190)) (s st)) (s st)))
         1
         (np_transpose (A2 c (select (map (\<lambda>x. (50 \<le> x \<and> x \<le> 82) \<or> (150 \<le> x \<and> x \<le> 190)) (s st)) X)))
        = Inr P
    \<and> (\<forall>i < length (s st). s st ! i \<le> 82 \<or> 150 \<le> s st ! i \<longrightarrow> Y ! i = X ! i)
    \<and> (\<forall>prows. P = A2 5 prows \<and> length prows = c \<and> wf P \<longrightarrow>
          (\<forall>i < length (s st). 82 < s st ! i \<and> s st ! i < 150 \<longrightarrow>
             (\<forall>j < c. Y ! i ! j = poly_value (prows ! j) (s st ! i))))"
proof -
  define obj where "obj = (subclass_init_xi Kirkby2013 kw)\<lparr>u_cosmo_fid_xi := kx_cosmo_fid kw,
    xi_interpolator := interp\<rparr>"
  from assms(1) obtain s1 s2 where
    steps: "set_s (case kx_ns kw of None \<Rightarrow> 1024 | Some n \<Rightarrow> n) obj = Inr s1"
      "set_xi interp (kx_cosmo kw) s1 = Inr s2" "compute_xi ext s2 = Inr st"
    by (auto simp: init_xi_def base_init_xi_def Let_def rbind_eq_Inr obj_def split: if_splits)
  have o: "srange_left obj = (50, 82)" "srange_right obj = (150, 190)" "cls_xi obj = Kirkby2013"
    using assms(2,3)
    by (simp_all add: obj_def subclass_init_xi_def new_filter_xi_def the_default_def)
  note a1 = set_s_frame2[OF steps(1)]
  note a2 = set_xi_frame2[OF steps(2)]
  note b2 = set_xi_frame[OF steps(2)]
  have r: "srange_left s2 = (50, 82)" "srange_right s2 = (150, 190)" "u_cosmo_xi s2 = None"
    using a1 a2 o assms(4) by simp_all
  have c2: "cls_xi s2 = Kirkby2013" using a1 b2 o by simp
  have comp: "kirkby2013_compute ext s2 = Inr st"
    using steps(3) c2 by (simp add: compute_xi_def)
  have rg: "rescaled_sranges s2 = Inr (((50, 82), (150, 190)), s2)"
    using rescaled_sranges_unit[OF r(3)] r(1,2) by simp
  from b2 obtain c X where X: "xi s2 = A2 c X" "length X = length (s s1)" by blast
  have ls: "length X = length (s s2)" using X(2) b2 by simp
  note fr = kirkby2013_shape[OF X(1) comp]
  have frs: "s s2 = s st" and frx: "xi st = A2 c X" using fr X(1) by simp_all
  from kirkby2013_compute_fill[OF comp rg X(1) ls, unfolded frs ls[unfolded frs]]
  obtain Y P where
    Y: "xinow st = A2 c Y" "length Y = length (s st)"
      "lss_fit ext
         (model (select (map (\<lambda>x. (50 \<le> x \<and> x \<le> 82) \<or> (150 \<le> x \<and> x \<le> 190)) (s st)) (s st)))
         1
         (np_transpose (A2 c (select (map (\<lambda>x. (50 \<le> x \<and> x \<le> 82) \<or> (150 \<le> x \<and> x \<le> 190)) (s st)) X)))
        = Inr P"
      "\<forall>i < length (s st). s st ! i \<le> 82 \<or> 150 \<le> s st ! i \<longrightarrow> Y ! i = X ! i"
      "\<forall>prows. P = A2 5 prows \<and> length prows = c \<and> wf P \<longrightarrow>
          (\<forall>i < length (s st). 82 < s st ! i \<and> s st ! i < 150 \<longrightarrow>
             (\<forall>j < c. Y ! i ! j = poly_value (prows ! j) (s st ! i)))"
    by (elim exE conjE) (rule that)
  show ?thesis
    apply (rule exI[of _ c], rule exI[of _ X], rule exI[of _ Y], rule exI[of _ P])
    apply (intro conjI)
          apply (rule frx)
         apply (rule Y(1))
        apply (rule ls[unfolded frs])
       apply (rule Y(2))
      apply (rule Y(3))
     apply (rule Y(4))
    apply (rule Y(5))
    done
qed

theorem kirkby2013_fill_witness:
  "init_xi ext0 Kirkby2013 xi_interp0 kwargs_xi3 = Inr kirkby_built
   \<and> s kirkby_built = [60, 120, 240]
   \<and> xi kirkby_built = A2 1 [[60], [120], [240]]
   \<and> (\<exists>Y. xinow kirkby_built = A2 1 Y \<and> Y ! 0 = [60] \<and> Y ! 2 = [240]
          \<and> Y ! 1 ! 0 = poly_value [0, 7, 0, 0, 0] 120)"
proof -
  have k: "kx_srange_left kwargs_xi3 = None" "kx_srange_right kwargs_xi3 = None"
    "kx_cosmo kwargs_xi3 = None"
    by (simp_all add: kwargs_xi3_def no_kwargs_xi_def)
  have v: "s kirkby_built = [60, 120, 240]" "xi kirkby_built = A2 1 [[60], [120], [240]]"
    by (simp_all add: kirkby_built_def new_filter_xi_def)
  have "\<exists>Y. xinow kirkby_built = A2 1 Y \<and> Y ! 0 = [60] \<and> Y ! 2 = [240]
          \<and> Y ! 1 ! 0 = poly_value [0, 7, 0, 0, 0] 120"
    using kirkby2013_fill[OF kirkby_example k]
    apply (elim exE conjE)
    subgoal premises q for c X Y P
    proof -
      have c: "c = 1" and X: "X = [[60], [120], [240]]" using q(1) v(2) by simp_all
      have P: "P = A2 5 [[0, 7, 0, 0, 0]]"
        using q(5) by (simp add: v c X ext0_def)
      have "Y ! 0 = X ! 0" "Y ! 2 = X ! 2"
        using q(6)[rule_format, of 0] q(6)[rule_format, of 2] by (simp_all add: v)
      moreover have "Y ! 1 ! 0 = poly_value ([[0, 7, 0, 0, 0]] ! 0) (s kirkby_built ! 1)"
        using q(7)[rule_format, of "[[0, 7, 0, 0, 0]]" 1 0] by (simp add: P c v)
      ultimately show ?thesis using q(2) c X by (simp add: v)
    qed
    done
  with kirkby_example v show ?thesis by simp
qed

section \<open>The sampling grid\<close>

text \<open>
  C3, as stated, fails: with \<^verbatim>\<open>extrap_kmin = extrap_kmax = 1\<close>, \<^verbatim>\<open>set_k\<close> returns the
  grid \<open>[1, 1]\<close> and \<^verbatim>\<open>set_pk\<close> samples the interpolator on it.
\<close>

theorem degenerate_range_counterexample:
  "extrap_kmax degenerate_interp \<le> extrap_kmin degenerate_interp
   \<and> rbind (set_k 2 degenerate_start) (set_pk degenerate_interp None)
       = Inr (degenerate_start\<lparr>k := [1, 1], pk := A2 1 [[3], [3]]\<rparr>)"
  by (simp add: degenerate_interp_def degenerate_start_def new_filter_def set_k_def np_geomspace_def
      upt_rec set_pk_def sample_def column_def Let_def)

lemma sample_Inr:
  "\<exists>a c. sample (isinstance2d interp) interp interp xs = Inr (A2 c a) \<and> length a = length xs"
  by (cases interp) (simp_all add: sample_def column_def)

lemma sample_rows:
  assumes "sample two zsrc interp xs = Inr (A2 c a)"
  shows "length a = length xs
    \<and> (\<forall>i < length xs. sample two zsrc interp [xs ! i] = Inr (A2 c [a ! i]))"
  using assms sample_A2[OF assms] sample_single[OF assms] by auto

text \<open>
  C3, amended. \<^verbatim>\<open>set_k\<close> does not compare the bounds: it raises (numpy's
  \<^verbatim>\<open>ValueError\<close>) when a bound is zero, and for a degenerate or reversed range with positive
  bounds, \<open>0 < extrap_kmax \<le> extrap_kmin\<close>, it returns the log-spaced grid of \<open>nk\<close>
  points \<open>extrap_kmin * (extrap_kmax / extrap_kmin) ^ (i / (nk - 1))\<close>, which starts at
  \<open>extrap_kmin\<close>, ends at \<open>extrap_kmax\<close> when it has two points or more, and stays between
  the two bounds. \<^verbatim>\<open>set_pk\<close> then samples the interpolator on this grid: the raw array
  is the interpolator evaluated on the grid, one row for each grid point.
\<close>

theorem set_k_no_range_check:
  assumes "pk_interpolator self = interp"
  shows "((extrap_kmin interp = 0 \<or> extrap_kmax interp = 0) \<longrightarrow>
            set_k nk self = Inl (ValueError ''Geometric sequence cannot include zero''))
       \<and> (0 < extrap_kmax interp \<and> extrap_kmax interp \<le> extrap_kmin interp \<and> 0 \<le> nk \<longrightarrow>
            (\<exists>st c a. rbind (set_k nk self) (set_pk interp co) = Inr st
               \<and> k st = map (\<lambda>i. extrap_kmin interp *
                     (extrap_kmax interp / extrap_kmin interp) powr (real i / real (nat nk - 1)))
                     [0..<nat nk]
               \<and> (0 < nk \<longrightarrow> k st ! 0 = extrap_kmin interp)
               \<and> (1 < nk \<longrightarrow> k st ! (nat nk - 1) = extrap_kmax interp)
               \<and> (\<forall>i < nat nk. extrap_kmax interp \<le> k st ! i \<and> k st ! i \<le> extrap_kmin interp)
               \<and> pk st = A2 c a \<and> length a = nat nk
               \<and> sample (isinstance2d interp) interp interp (k st) = Inr (pk st)
               \<and> (\<forall>i < nat nk.
                     sample (isinstance2d interp) interp interp [k st ! i] = Inr (A2 c [a ! i]))))"
proof -
  define lo where "lo = extrap_kmin interp"
  define hi where "hi = extrap_kmax interp"
  have e: "extrap_kmin interp = lo" "extrap_kmax interp = hi"
    by (simp_all add: lo_def hi_def)
  have "((lo = 0 \<or> hi = 0) \<longrightarrow>
              set_k nk self = Inl (ValueError ''Geometric sequence cannot include zero''))
         \<and> (0 < hi \<and> hi \<le> lo \<and> 0 \<le> nk \<longrightarrow>
              (\<exists>st c a. rbind (set_k nk self) (set_pk interp co) = Inr st
                 \<and> k st = map (\<lambda>i. lo * (hi / lo) powr (real i / real (nat nk - 1))) [0..<nat nk]
                 \<and> (0 < nk \<longrightarrow> k st ! 0 = lo)
                 \<and> (1 < nk \<longrightarrow> k st ! (nat nk - 1) = hi)
                 \<and> (\<forall>i < nat nk. hi \<le> k st ! i \<and> k st ! i \<le> lo)
                 \<and> pk st = A2 c a \<and> length a = nat nk
                 \<and> sample (isinstance2d interp) interp interp (k st) = Inr (pk st)
                 \<and> (\<forall>i < nat nk.
                       sample (isinstance2d interp) interp interp [k st ! i] = Inr (A2 c [a ! i]))))"
  proof (intro conjI impI)
    assume "lo = 0 \<or> hi = 0"
    then show "set_k nk self = Inl (ValueError ''Geometric sequence cannot include zero'')"
      using assms e by (auto simp: set_k_def np_geomspace_def)
  next
    assume a: "0 < hi \<and> hi \<le> lo \<and> 0 \<le> nk"
    then have nz: "lo \<noteq> 0" "hi \<noteq> 0" "\<not> lo * hi < 0" "\<not> nk < 0" "0 < lo" "0 < hi / lo"
      "hi / lo \<le> 1" "0 < hi"
      by (auto simp: mult_less_0_iff)
    let ?g = "\<lambda>i. lo * (hi / lo) powr (real i / real (nat nk - 1))"
    let ?ks = "map ?g [0..<nat nk]"
    have sk: "set_k nk self = Inr (self\<lparr>k := ?ks\<rparr>)"
      using nz by (simp add: set_k_def np_geomspace_def assms e)
    obtain rows c where s: "sample (isinstance2d interp) interp interp ?ks = Inr (A2 c rows)"
      using sample_Inr[of interp ?ks] by blast
    note sr = sample_rows[OF s]
    define st where "st = self\<lparr>k := ?ks, u_cosmo := co, pk_interpolator := interp,
        is2d := isinstance2d interp, pk := A2 c rows\<rparr>"
    have run: "rbind (set_k nk self) (set_pk interp co) = Inr st"
      using s by (simp add: sk set_pk_def Let_def st_def)
    have kst: "k st = ?ks" and pst: "pk st = A2 c rows" by (simp_all add: st_def)
    have first: "0 < nk \<longrightarrow> k st ! 0 = lo"
      using nz by (auto simp: kst)
    have last: "1 < nk \<longrightarrow> k st ! (nat nk - 1) = hi"
    proof
      assume n: "1 < nk"
      then have "real (nat nk - 1) / real (nat nk - 1) = 1" by auto
      then have "?g (nat nk - 1) = lo * (hi / lo) powr 1" by (simp only:)
      also have "\<dots> = hi" using nz by simp
      finally show "k st ! (nat nk - 1) = hi" using n by (simp add: kst)
    qed
    have bounds: "\<forall>i < nat nk. hi \<le> k st ! i \<and> k st ! i \<le> lo"
    proof (intro allI impI)
      fix i assume i: "i < nat nk"
      let ?t = "real i / real (nat nk - 1)"
      have t0: "0 \<le> ?t" by simp
      have t1: "?t \<le> 1"
      proof (cases "nat nk - 1 = 0")
        case True
        then show ?thesis by simp
      next
        case False
        have "i \<le> nat nk - 1" using i by simp
        then have "real i \<le> real (nat nk - 1)" by (simp only: of_nat_le_iff)
        moreover have "0 < real (nat nk - 1)" using False by simp
        ultimately show ?thesis by (simp only: divide_le_eq_1_pos)
      qed
      have up: "(hi / lo) powr ?t \<le> (hi / lo) powr 0"
        using t0 nz by (intro powr_mono') auto
      have dn: "(hi / lo) powr 1 \<le> (hi / lo) powr ?t"
        using t1 nz by (intro powr_mono') auto
      have "lo * (hi / lo) powr ?t \<le> lo * 1"
        using up nz by (intro mult_left_mono) auto
      moreover have "lo * (hi / lo) powr 1 \<le> lo * (hi / lo) powr ?t"
        using dn nz by (intro mult_left_mono) auto
      moreover have "lo * (hi / lo) powr 1 = hi" using nz by simp
      ultimately show "hi \<le> k st ! i \<and> k st ! i \<le> lo"
        using i by (simp add: kst)
    qed
    have smp: "sample (isinstance2d interp) interp interp (k st) = Inr (pk st)"
      using s by (simp add: kst pst)
    have len: "length rows = nat nk" using sr by simp
    have rows: "\<forall>i < nat nk.
        sample (isinstance2d interp) interp interp [k st ! i] = Inr (A2 c [rows ! i])"
      using sr unfolding kst by simp
    show "\<exists>st c a. rbind (set_k nk self) (set_pk interp co) = Inr st
                 \<and> k st = ?ks
                 \<and> (0 < nk \<longrightarrow> k st ! 0 = lo)
                 \<and> (1 < nk \<longrightarrow> k st ! (nat nk - 1) = hi)
                 \<and> (\<forall>i < nat nk. hi \<le> k st ! i \<and> k st ! i \<le> lo)
                 \<and> pk st = A2 c a \<and> length a = nat nk
                 \<and> sample (isinstance2d interp) interp interp (k st) = Inr (pk st)
                 \<and> (\<forall>i < nat nk.
                       sample (isinstance2d interp) interp interp [k st ! i] = Inr (A2 c [a ! i]))"
      apply (rule exI[of _ st], rule exI[of _ c], rule exI[of _ rows])
      apply (intro conjI)
              apply (rule run)
             apply (rule kst)
            apply (rule first)
           apply (rule last)
          apply (rule bounds)
         apply (rule pst)
        apply (rule len)
       apply (rule smp)
      apply (rule rows)
      done
  qed
  then show ?thesis unfolding lo_def hi_def .
qed

theorem set_k_no_range_check_witness:
  "set_k 2 zero_start = Inl (ValueError ''Geometric sequence cannot include zero'')
   \<and> (\<exists>st. rbind (set_k 2 reversed_start) (set_pk reversed_interp None) = Inr st
          \<and> k st = [4, 1] \<and> pk st = A2 1 [[3], [3]])"
proof -
  have a: "pk_interpolator zero_start = Interpolator1D 0 1 (\<lambda>x. 3)"
    by (simp add: zero_start_def new_filter_def)
  have b: "pk_interpolator reversed_start = reversed_interp"
    by (simp add: reversed_start_def new_filter_def)
  have z: "set_k 2 zero_start = Inl (ValueError ''Geometric sequence cannot include zero'')"
    using set_k_no_range_check[OF a, of 2] by simp
  have "\<exists>st. rbind (set_k 2 reversed_start) (set_pk reversed_interp None) = Inr st
          \<and> k st = [4, 1] \<and> pk st = A2 1 [[3], [3]]"
    using set_k_no_range_check[OF b, of 2 None, THEN conjunct2]
    apply (simp add: reversed_interp_def)
    apply (elim exE conjE)
    subgoal premises q for st c a
    proof -
      have ks: "k st = [4, 1]" using q(2) by (simp add: upt_rec)
      have "pk st = A2 1 [[3], [3]]"
        using q(8) by (simp add: ks sample_def column_def)
      with q(1) ks show ?thesis by auto
    qed
    done
  with z show ?thesis by simp
qed

section \<open>The wiggles\<close>




section \<open>The Savitzky-Golay window\<close>
















section \<open>The stitched ends of Wallish2018\<close>






















end
